theory Spec2Isabelle
  imports Main "HOL-Library.Word"
begin

unbundle bit_operations_syntax

section \<open>Python values, exceptions and the platform\<close>

text \<open>
  The module \<^verbatim>\<open>mason_original.py\<close> is embedded function by function. A function that can
  raise returns \<open>exn + 'a\<close>, with \<open>Inl\<close> for the exception. The exception classes are
  Python's built-in ones and the module's own \<^verbatim>\<open>UnsupportedFeature\<close>, which carries the
  arguments it was raised with; \<open>Exception\<close> carries its message. \<open>OtherError\<close> stands for
  the exceptions of library functions (base64, zlib, gzip, the file readers), named by a
  string. \<open>Unmodelled\<close> is not a Python exception: it marks the few places where an
  operation is applied to an object that no run of the loader can produce and where this
  development does not say what Python does.
\<close>

datatype exn =
    KeyError
  | AttributeError
  | ValueError
  | TypeError
  | OverflowError
  | IndexError
  | NameError
  | StructError
  | UnsupportedFeature "string list"
  | Exception string
  | OtherError string
  | Unmodelled

definition and_then :: "exn + 'a \<Rightarrow> ('a \<Rightarrow> exn + 'b) \<Rightarrow> exn + 'b" where
  "and_then m f = (case m of Inl e \<Rightarrow> Inl e | Inr x \<Rightarrow> f x)"

text \<open>
  Scalars: \<^verbatim>\<open>None\<close>, \<^verbatim>\<open>str\<close>, \<^verbatim>\<open>int\<close>, \<^verbatim>\<open>bool\<close> and \<^verbatim>\<open>float\<close>. Python integers are
  unbounded (\<open>int\<close>). A string is a list of code points below 256. The float type \<open>'f\<close>
  and its operations are the platform's and are parameters of the model.
\<close>

datatype 'f pyval = VNone | VStr string | VInt int | VBool bool | VFloat 'f

text \<open>The classes of the module, by name.\<close>

datatype tclass =
    Token | AnimationToken | ChunkToken | DataToken | EllipseToken | FrameToken
  | GridToken | GroupToken | ImagelayerToken | ImageToken | LayerToken | MapToken
  | ObjectgroupToken | ObjectToken | PointToken | PolygonToken | PolylineToken
  | PropertiesToken | PropertyToken | TemplateToken | TerrainToken | TerraintypesToken
  | TextToken | TileOffsetToken | TilesetSourceToken | TilesetToken | TileToken

text \<open>
  An instance of a token class holds its class, the mapping \<^verbatim>\<open>self.attrib\<close>, the object
  \<^verbatim>\<open>self.properties\<close>, and its other instance attributes (\<open>instance_dict\<close>, the rest of the
  instance dictionary, in the order they were set). Objects are scalars, tokens, lists,
  tuples, dictionaries with scalar keys, \<^verbatim>\<open>array.array("H")\<close> values, bound methods
  (\<open>Method\<close>, by name) and class-level tables whose content is not represented (\<open>Other\<close>).
\<close>

datatype 'f token =
  Instance (class_of: tclass) (attrib: "(string \<times> 'f obj) list") (properties: "'f obj")
    (instance_dict: "(string \<times> 'f obj) list")
and 'f obj =
    Val "'f pyval"
  | Tok "'f token"
  | Lst "'f obj list"
  | Tup "'f obj list"
  | Dict "('f pyval \<times> 'f obj) list"
  | Arr "int list"
  | Method string
  | Other string

type_synonym byte = "8 word"

text \<open>
  One item of the event source: \<^verbatim>\<open>(event, tag, attrib, text)\<close>. A source is the list of
  items a generator yields and the exception that ends it, if one does.
\<close>

type_synonym 'f event = "string \<times> string \<times> (string \<times> 'f pyval) list \<times> string option"

type_synonym 'f source = "'f event list \<times> exn option"

text \<open>
  What the module takes from Python's library and the operating system: the float type
  (parsing, conversion from \<^verbatim>\<open>int\<close>, addition, truncation to \<^verbatim>\<open>int\<close>, \<^verbatim>\<open>repr\<close>,
  truth value, the literal \<^verbatim>\<open>1.0\<close>), \<^verbatim>\<open>base64.b64decode\<close>, \<^verbatim>\<open>zlib.decompress\<close>, reading a
  gzip stream, \<^verbatim>\<open>os.path.splitext\<close>, and the two readers \<^verbatim>\<open>load_json\<close> and \<^verbatim>\<open>load_tmx\<close>,
  whose items depend on the file's content.
\<close>

record 'f platform =
  float_of_str :: "string \<Rightarrow> 'f option"
  float_of_int :: "int \<Rightarrow> 'f option"
  float_add :: "'f \<Rightarrow> 'f \<Rightarrow> 'f"
  float_trunc :: "'f \<Rightarrow> exn + int"
  float_repr :: "'f \<Rightarrow> string"
  float_nonzero :: "'f \<Rightarrow> bool"
  float_1_0 :: "'f"
  b64decode :: "string \<Rightarrow> exn + byte list"
  zlib_decompress :: "byte list \<Rightarrow> exn + byte list"
  gzip_read :: "byte list \<Rightarrow> exn + byte list"
  splitext :: "string \<Rightarrow> string \<times> string"
  load_json :: "string \<Rightarrow> 'f source"
  load_tmx :: "string \<Rightarrow> 'f source"

section \<open>Strings\<close>

text \<open>The whitespace of \<^verbatim>\<open>str.strip\<close>, \<^verbatim>\<open>str.split\<close> and \<^verbatim>\<open>int\<close> among the code points below 256.\<close>

definition is_space :: "char \<Rightarrow> bool" where
  "is_space c = (c \<in> set [CHR 0x09, CHR 0x0A, CHR 0x0B, CHR 0x0C, CHR 0x0D, CHR 0x1C,
     CHR 0x1D, CHR 0x1E, CHR 0x1F, CHR 0x20, CHR 0x85, CHR 0xA0])"

definition strip :: "string \<Rightarrow> string" where
  "strip s = rev (dropWhile is_space (rev (dropWhile is_space s)))"

fun split_when :: "(char \<Rightarrow> bool) \<Rightarrow> string \<Rightarrow> string list" where
  "split_when p [] = [[]]"
| "split_when p (c # cs) =
     (if p c then [] # split_when p cs
      else (case split_when p cs of [] \<Rightarrow> [[c]] | f # fs \<Rightarrow> (c # f) # fs))"

text \<open>\<^verbatim>\<open>s.split(",")\<close> and \<^verbatim>\<open>s.split()\<close>.\<close>

definition split_comma :: "string \<Rightarrow> string list" where
  "split_comma s = split_when (\<lambda>c. c = CHR '','') s"

definition split_ws :: "string \<Rightarrow> string list" where
  "split_ws s = filter (\<lambda>f. f \<noteq> []) (split_when is_space s)"

text \<open>\<^verbatim>\<open>str.lower\<close> on the code points below 256.\<close>

definition lower_char :: "char \<Rightarrow> char" where
  "lower_char c =
     (let n = (of_char c :: nat) in
      if (65 \<le> n \<and> n \<le> 90) \<or> (192 \<le> n \<and> n \<le> 222 \<and> n \<noteq> 215) then char_of (n + 32)
      else c)"

definition lower :: "string \<Rightarrow> string" where
  "lower s = map lower_char s"

text \<open>
  \<^verbatim>\<open>int(s)\<close> for a string: surrounding whitespace is dropped, a sign may lead, and the
  digits may be separated by single underscores. (The length limit of recent Python
  versions on such strings is not part of the model.)
\<close>

definition digit_of :: "char \<Rightarrow> nat option" where
  "digit_of c =
     (let n = (of_char c :: nat) in if 48 \<le> n \<and> n \<le> 57 then Some (n - 48) else None)"

fun digits_value :: "bool \<Rightarrow> nat \<Rightarrow> string \<Rightarrow> nat option" where
  "digits_value after_digit acc [] = (if after_digit then Some acc else None)"
| "digits_value after_digit acc (c # cs) =
     (case digit_of c of
        Some d \<Rightarrow> digits_value True (10 * acc + d) cs
      | None \<Rightarrow> if c = CHR ''_'' \<and> after_digit then digits_value False acc cs else None)"

definition int_of_str :: "string \<Rightarrow> int option" where
  "int_of_str s =
     (case strip s of
        [] \<Rightarrow> None
      | c # cs \<Rightarrow>
          if c = CHR ''-'' then map_option (\<lambda>n. - int n) (digits_value False 0 cs)
          else if c = CHR ''+'' then map_option int (digits_value False 0 cs)
          else map_option int (digits_value False 0 (c # cs)))"

text \<open>\<^verbatim>\<open>str(i)\<close> for an integer.\<close>

fun str_of_nat :: "nat \<Rightarrow> string" where
  "str_of_nat n =
     (if n < 10 then [char_of (48 + n)] else str_of_nat (n div 10) @ [char_of (48 + n mod 10)])"

definition str_of_int :: "int \<Rightarrow> string" where
  "str_of_int i = (if i < 0 then CHR ''-'' # str_of_nat (nat (- i)) else str_of_nat (nat i))"

section \<open>Dictionaries\<close>

text \<open>
  A dictionary is an association list with distinct keys in insertion order.
  \<^verbatim>\<open>d[k] = v\<close> replaces the value of a key that is present and appends otherwise.
\<close>

fun dict_set :: "'k \<Rightarrow> 'v \<Rightarrow> ('k \<times> 'v) list \<Rightarrow> ('k \<times> 'v) list" where
  "dict_set k v [] = [(k, v)]"
| "dict_set k v ((k', v') # d) = (if k = k' then (k', v) # d else (k', v') # dict_set k v d)"

definition dict_update :: "('k \<times> 'v) list \<Rightarrow> ('k \<times> 'v) list \<Rightarrow> ('k \<times> 'v) list" where
  "dict_update d items = fold (\<lambda>(k, v). dict_set k v) items d"

definition dict_get :: "('k \<times> 'v) list \<Rightarrow> 'k \<Rightarrow> exn + 'v" where
  "dict_get d k = (case map_of d k of None \<Rightarrow> Inl KeyError | Some v \<Rightarrow> Inr v)"

section \<open>Tile identifiers\<close>

definition GID_TRANS_FLIPX :: int where "GID_TRANS_FLIPX = push_bit 31 1"
definition GID_TRANS_FLIPY :: int where "GID_TRANS_FLIPY = push_bit 30 1"
definition GID_TRANS_ROT :: int where "GID_TRANS_ROT = push_bit 29 1"

datatype TileFlags =
  TileFlags (flipped_horizontally: bool) (flipped_vertically: bool) (flipped_diagonally: bool)

text \<open>The value of the local variable \<^verbatim>\<open>flags\<close> of \<^verbatim>\<open>decode_gid\<close>.\<close>

definition decode_gid_flags :: "int \<Rightarrow> TileFlags" where
  "decode_gid_flags raw_gid =
     TileFlags (raw_gid AND GID_TRANS_FLIPX = GID_TRANS_FLIPX)
       (raw_gid AND GID_TRANS_FLIPY = GID_TRANS_FLIPY)
       (raw_gid AND GID_TRANS_ROT = GID_TRANS_ROT)"

text \<open>\<^verbatim>\<open>decode_gid\<close> builds \<^verbatim>\<open>flags\<close> and \<^verbatim>\<open>gid\<close>; its last line is \<^verbatim>\<open>return gid\<close>.\<close>

definition decode_gid :: "int \<Rightarrow> int" where
  "decode_gid raw_gid =
     (let flags = decode_gid_flags raw_gid;
          gid = raw_gid AND NOT (GID_TRANS_FLIPX OR GID_TRANS_FLIPY OR GID_TRANS_ROT)
      in gid)"

section \<open>Geometry\<close>



section \<open>Truth values, indices and slices\<close>

text \<open>
  The truth value of an object (\<^verbatim>\<open>if x:\<close>). For a class-level table it depends on content
  that is not represented.
\<close>

fun py_truth :: "'f platform \<Rightarrow> 'f obj \<Rightarrow> exn + bool" where
  "py_truth pf (Val VNone) = Inr False"
| "py_truth pf (Val (VStr s)) = Inr (s \<noteq> [])"
| "py_truth pf (Val (VInt i)) = Inr (i \<noteq> 0)"
| "py_truth pf (Val (VBool b)) = Inr b"
| "py_truth pf (Val (VFloat x)) = Inr (float_nonzero pf x)"
| "py_truth pf (Tok t) = Inr True"
| "py_truth pf (Lst xs) = Inr (xs \<noteq> [])"
| "py_truth pf (Tup xs) = Inr (xs \<noteq> [])"
| "py_truth pf (Dict d) = Inr (d \<noteq> [])"
| "py_truth pf (Arr xs) = Inr (xs \<noteq> [])"
| "py_truth pf (Method m) = Inr True"
| "py_truth pf (Other n) = Inl Unmodelled"

text \<open>An object usable as an integer index or count: an \<^verbatim>\<open>int\<close> or a \<^verbatim>\<open>bool\<close>.\<close>

fun as_index :: "'f obj \<Rightarrow> int option" where
  "as_index (Val (VInt i)) = Some i"
| "as_index (Val (VBool b)) = Some (if b then 1 else 0)"
| "as_index _ = None"

text \<open>
  \<^verbatim>\<open>xs[a:b]\<close> on a list: a negative bound counts from the end, and both bounds are
  clamped to the list.
\<close>

definition slice_bound :: "nat \<Rightarrow> int \<Rightarrow> nat" where
  "slice_bound n i = (if i < 0 then nat (max (int n + i) 0) else min (nat i) n)"

definition py_slice :: "'a list \<Rightarrow> int \<Rightarrow> int \<Rightarrow> 'a list" where
  "py_slice xs a b =
     (let lo = slice_bound (length xs) a; hi = slice_bound (length xs) b
      in take (hi - lo) (drop lo xs))"

text \<open>
  \<^verbatim>\<open>array.array("H", items)\<close>: every item must be an integer that fits an unsigned short
  (16 bits); the first item that is not raises.
\<close>

fun array_H :: "'f obj list \<Rightarrow> exn + int list" where
  "array_H [] = Inr []"
| "array_H (x # xs) =
     (case as_index x of
        None \<Rightarrow> Inl TypeError
      | Some i \<Rightarrow>
          if i < 0 \<or> 65535 < i then Inl OverflowError
          else (case array_H xs of Inl e \<Rightarrow> Inl e | Inr r \<Rightarrow> Inr (i # r)))"

section \<open>Tile data\<close>

text \<open>
  \<^verbatim>\<open>rowify(gids, w, h)\<close> is \<^verbatim>\<open>tuple(array.array("H", gids[i * w : i * w + w]) for i in range(h))\<close>.
  \<open>rowify_rows\<close> builds the rows for the indices of \<^verbatim>\<open>range(h)\<close> in order. \<^verbatim>\<open>range(h)\<close>
  needs an integer, and so do the slice bounds as soon as there is a first row.
\<close>

fun rowify_rows :: "'f obj list \<Rightarrow> int \<Rightarrow> int list \<Rightarrow> exn + int list list" where
  "rowify_rows gids w [] = Inr []"
| "rowify_rows gids w (i # is) =
     (case array_H (py_slice gids (i * w) (i * w + w)) of
        Inl e \<Rightarrow> Inl e
      | Inr r \<Rightarrow> (case rowify_rows gids w is of Inl e \<Rightarrow> Inl e | Inr rs \<Rightarrow> Inr (r # rs)))"

definition rowify :: "'f obj list \<Rightarrow> 'f obj \<Rightarrow> 'f obj \<Rightarrow> exn + 'f obj" where
  "rowify gids w h =
     (case as_index h of
        None \<Rightarrow> Inl TypeError
      | Some hh \<Rightarrow>
          if hh \<le> 0 then Inr (Tup [])
          else (case as_index w of
                  None \<Rightarrow> Inl TypeError
                | Some ww \<Rightarrow>
                    (case rowify_rows gids ww (map int [0..<nat hh]) of
                       Inl e \<Rightarrow> Inl e
                     | Inr rows \<Rightarrow> Inr (Tup (map Arr rows)))))"

text \<open>
  The data on its way through \<^verbatim>\<open>unpack\<close>: the text of the node, bytes, or the lazy
  \<^verbatim>\<open>map(int, fields)\<close> object that \<^verbatim>\<open>decode_csv\<close> returns (its fields are not converted
  before something iterates it).
\<close>

datatype payload = PStr string | PBytes "byte list" | PMap "string list"

definition decompress_zlib :: "'f platform \<Rightarrow> payload \<Rightarrow> exn + payload" where
  "decompress_zlib pf data =
     (case data of
        PBytes bs \<Rightarrow> (case zlib_decompress pf bs of Inl e \<Rightarrow> Inl e | Inr r \<Rightarrow> Inr (PBytes r))
      | _ \<Rightarrow> Inl TypeError)"

definition decompress_gzip :: "'f platform \<Rightarrow> payload \<Rightarrow> exn + payload" where
  "decompress_gzip pf data =
     (case data of
        PBytes bs \<Rightarrow> (case gzip_read pf bs of Inl e \<Rightarrow> Inl e | Inr r \<Rightarrow> Inr (PBytes r))
      | _ \<Rightarrow> Inl TypeError)"

text \<open>
  The two text decoders are applied to the node's text; the map object has no \<^verbatim>\<open>strip\<close>.
\<close>

definition decode_base64 :: "'f platform \<Rightarrow> payload \<Rightarrow> exn + payload" where
  "decode_base64 pf data =
     (case data of
        PStr s \<Rightarrow> (case b64decode pf (strip s) of Inl e \<Rightarrow> Inl e | Inr r \<Rightarrow> Inr (PBytes r))
      | PBytes bs \<Rightarrow> Inl Unmodelled
      | PMap fs \<Rightarrow> Inl AttributeError)"

definition decode_csv :: "payload \<Rightarrow> exn + payload" where
  "decode_csv data =
     (case data of
        PStr s \<Rightarrow> Inr (PMap (split_comma (concat (map (\<lambda>i. strip [i]) (strip s)))))
      | PBytes bs \<Rightarrow> Inl Unmodelled
      | PMap fs \<Rightarrow> Inl AttributeError)"

text \<open>
  \<^verbatim>\<open>globals()[prefix + xform]\<close>: the module-level names that start with \<^verbatim>\<open>decode_\<close> or
  \<^verbatim>\<open>decompress_\<close>. \<^verbatim>\<open>decode_gid\<close> is among them; applied to text, bytes or a map object
  its \<^verbatim>\<open>&\<close> raises.
\<close>

definition globals_xform :: "'f platform \<Rightarrow> string \<Rightarrow> (payload \<Rightarrow> exn + payload) option" where
  "globals_xform pf name =
     map_of
       [(''decompress_zlib'', decompress_zlib pf),
        (''decompress_gzip'', decompress_gzip pf),
        (''decode_base64'', decode_base64 pf),
        (''decode_csv'', decode_csv),
        (''decode_gid'', \<lambda>data. Inl TypeError)] name"

text \<open>
  The function \<^verbatim>\<open>get_data_xform(prefix, exception)\<close> returns; the result is \<open>None\<close> when
  \<^verbatim>\<open>xform\<close> is false. The exception is always \<^verbatim>\<open>UnsupportedFeature\<close>.
\<close>

definition get_data_xform ::
  "'f platform \<Rightarrow> string \<Rightarrow> payload \<Rightarrow> 'f obj \<Rightarrow> exn + payload option" where
  "get_data_xform pf prefix data xform =
     (case py_truth pf xform of
        Inl e \<Rightarrow> Inl e
      | Inr False \<Rightarrow> Inr None
      | Inr True \<Rightarrow>
          (case xform of
             Val (VStr s) \<Rightarrow>
               (case globals_xform pf (prefix @ s) of
                  None \<Rightarrow> Inl (UnsupportedFeature [s])
                | Some xformer \<Rightarrow>
                    (case xformer data of Inl e \<Rightarrow> Inl e | Inr r \<Rightarrow> Inr (Some r)))
           | _ \<Rightarrow> Inl TypeError))"

definition decompress :: "'f platform \<Rightarrow> payload \<Rightarrow> 'f obj \<Rightarrow> exn + payload option" where
  "decompress pf = get_data_xform pf ''decompress_''"

definition decode :: "'f platform \<Rightarrow> payload \<Rightarrow> 'f obj \<Rightarrow> exn + payload option" where
  "decode pf = get_data_xform pf ''decode_''"

text \<open>\<^verbatim>\<open>unpack\<close>: the loop over \<^verbatim>\<open>[(decode, encoding), (decompress, compression)]\<close>.\<close>

definition unpack_step ::
  "(payload \<Rightarrow> 'f obj \<Rightarrow> exn + payload option) \<times> 'f obj \<Rightarrow> exn + payload \<Rightarrow> exn + payload" where
  "unpack_step fa acc =
     (case acc of
        Inl e \<Rightarrow> Inl e
      | Inr data \<Rightarrow>
          (case fst fa data (snd fa) of
             Inl e \<Rightarrow> Inl e
           | Inr None \<Rightarrow> Inr data
           | Inr (Some temp) \<Rightarrow> Inr temp))"

definition unpack :: "'f platform \<Rightarrow> payload \<Rightarrow> 'f obj \<Rightarrow> 'f obj \<Rightarrow> exn + payload" where
  "unpack pf data encoding compression =
     fold unpack_step [(decode pf, encoding), (decompress pf, compression)] (Inr data)"

text \<open>
  \<^verbatim>\<open>struct.Struct("<L").unpack_from(data, i)\<close> for \<^verbatim>\<open>i\<close> in \<^verbatim>\<open>range(0, len(data), 4)\<close>: four
  bytes, least significant first; fewer than four left is an error of \<^verbatim>\<open>struct\<close>.
\<close>

fun unpack_words :: "byte list \<Rightarrow> exn + int list" where
  "unpack_words [] = Inr []"
| "unpack_words (b0 # b1 # b2 # b3 # rest) =
     (case unpack_words rest of
        Inl e \<Rightarrow> Inl e
      | Inr ws \<Rightarrow>
          Inr ((uint b0 + 256 * uint b1 + 65536 * uint b2 + 16777216 * uint b3) # ws))"
| "unpack_words _ = Inl StructError"

text \<open>
  \<^verbatim>\<open>unroll_layer_data\<close>: \<^verbatim>\<open>len(data)\<close> fails on a map object; text has a length, but
  \<^verbatim>\<open>unpack_from\<close> rejects it as soon as there is a first position.
\<close>

definition unroll_layer_data :: "payload \<Rightarrow> exn + 'f obj list" where
  "unroll_layer_data data =
     (case data of
        PMap fs \<Rightarrow> Inl TypeError
      | PStr s \<Rightarrow> if s = [] then Inr [] else Inl TypeError
      | PBytes bs \<Rightarrow>
          (case unpack_words bs of
             Inl e \<Rightarrow> Inl e
           | Inr ws \<Rightarrow> Inr (map (\<lambda>w. Val (VInt (decode_gid w))) ws)))"

lemma and_then_simps [simp]:
  "and_then (Inl e) f = Inl e"
  "and_then (Inr x) f = f x"
  by (simp_all add: and_then_def)

lemma and_then_cong [fundef_cong]:
  "m = m' \<Longrightarrow> (\<And>x. m' = Inr x \<Longrightarrow> f x = f' x) \<Longrightarrow> and_then m f = and_then m' f'"
  by (cases m') (simp_all add: and_then_def)

text \<open>A comprehension whose element expression may raise: the first exception ends it.\<close>

fun map_result :: "('a \<Rightarrow> exn + 'b) \<Rightarrow> 'a list \<Rightarrow> exn + 'b list" where
  "map_result f [] = Inr []"
| "map_result f (x # xs) =
     (case f x of
        Inl e \<Rightarrow> Inl e
      | Inr y \<Rightarrow> (case map_result f xs of Inl e \<Rightarrow> Inl e | Inr ys \<Rightarrow> Inr (y # ys)))"

lemma map_result_cong [fundef_cong]:
  "xs = ys \<Longrightarrow> (\<And>x. x \<in> set ys \<Longrightarrow> f x = g x) \<Longrightarrow> map_result f xs = map_result g ys"
  by (induction ys arbitrary: xs) (auto split: sum.splits)

section \<open>Casters\<close>

text \<open>
  The callables that the attribute declarations and \<^verbatim>\<open>tiled_property_type\<close> use as
  \<^verbatim>\<open>cls\<close>: the built-ins \<^verbatim>\<open>str\<close>, \<^verbatim>\<open>int\<close>, \<^verbatim>\<open>float\<close>, \<^verbatim>\<open>bool\<close>, and the module's
  \<^verbatim>\<open>noop\<close> and \<^verbatim>\<open>read_points\<close>. They are applied to scalars: the raw values of the event
  source and the declared defaults.
\<close>

datatype caster = cast_str | cast_int | cast_float | cast_bool | cast_noop | cast_read_points

fun py_str :: "'f platform \<Rightarrow> 'f pyval \<Rightarrow> string" where
  "py_str pf VNone = ''None''"
| "py_str pf (VStr s) = s"
| "py_str pf (VInt i) = str_of_int i"
| "py_str pf (VBool b) = (if b then ''True'' else ''False'')"
| "py_str pf (VFloat x) = float_repr pf x"

fun py_int :: "'f platform \<Rightarrow> 'f pyval \<Rightarrow> exn + int" where
  "py_int pf VNone = Inl TypeError"
| "py_int pf (VStr s) = (case int_of_str s of None \<Rightarrow> Inl ValueError | Some i \<Rightarrow> Inr i)"
| "py_int pf (VInt i) = Inr i"
| "py_int pf (VBool b) = Inr (if b then 1 else 0)"
| "py_int pf (VFloat x) = float_trunc pf x"

fun py_float :: "'f platform \<Rightarrow> 'f pyval \<Rightarrow> exn + 'f" where
  "py_float pf VNone = Inl TypeError"
| "py_float pf (VStr s) = (case float_of_str pf s of None \<Rightarrow> Inl ValueError | Some x \<Rightarrow> Inr x)"
| "py_float pf (VInt i) =
     (case float_of_int pf i of None \<Rightarrow> Inl OverflowError | Some x \<Rightarrow> Inr x)"
| "py_float pf (VBool b) =
     (case float_of_int pf (if b then 1 else 0) of None \<Rightarrow> Inl OverflowError | Some x \<Rightarrow> Inr x)"
| "py_float pf (VFloat x) = Inr x"

fun py_bool :: "'f platform \<Rightarrow> 'f pyval \<Rightarrow> bool" where
  "py_bool pf VNone = False"
| "py_bool pf (VStr s) = (s \<noteq> [])"
| "py_bool pf (VInt i) = (i \<noteq> 0)"
| "py_bool pf (VBool b) = b"
| "py_bool pf (VFloat x) = float_nonzero pf x"

definition noop :: "'f pyval \<Rightarrow> 'f pyval" where
  "noop arg = arg"

text \<open>
  \<^verbatim>\<open>read_points(text)\<close> is
  \<^verbatim>\<open>tuple(tuple(map(float, i.split(","))) for i in text.split())\<close>; only a string has
  \<^verbatim>\<open>split\<close>.
\<close>

definition read_points :: "'f platform \<Rightarrow> 'f pyval \<Rightarrow> exn + 'f obj" where
  "read_points pf text =
     (case text of
        VStr s \<Rightarrow>
          (case map_result (\<lambda>i. map_result (\<lambda>c. py_float pf (VStr c)) (split_comma i))
                  (split_ws s) of
             Inl e \<Rightarrow> Inl e
           | Inr pts \<Rightarrow> Inr (Tup (map (\<lambda>p. Tup (map (\<lambda>x. Val (VFloat x)) p)) pts)))
      | _ \<Rightarrow> Inl AttributeError)"

fun apply_cast :: "'f platform \<Rightarrow> caster \<Rightarrow> 'f pyval \<Rightarrow> exn + 'f obj" where
  "apply_cast pf cast_str v = Inr (Val (VStr (py_str pf v)))"
| "apply_cast pf cast_int v =
     (case py_int pf v of Inl e \<Rightarrow> Inl e | Inr i \<Rightarrow> Inr (Val (VInt i)))"
| "apply_cast pf cast_float v =
     (case py_float pf v of Inl e \<Rightarrow> Inl e | Inr x \<Rightarrow> Inr (Val (VFloat x)))"
| "apply_cast pf cast_bool v = Inr (Val (VBool (py_bool pf v)))"
| "apply_cast pf cast_noop v = Inr (Val (noop v))"
| "apply_cast pf cast_read_points v = read_points pf v"

definition tiled_property_type :: "(string \<times> caster) list" where
  "tiled_property_type =
     [(''string'', cast_str), (''int'', cast_int), (''float'', cast_float),
      (''bool'', cast_bool), (''color'', cast_str), (''file'', cast_str)]"

section \<open>Attribute declarations\<close>

text \<open>
  \<^verbatim>\<open>Attr(name, cls, default, comment)\<close>; the comment is documentation only and is left
  out.
\<close>

datatype 'f Attr = Attr (attr_name: string) (attr_cls: caster) (attr_default: "'f pyval")

definition Color :: "'f Attr" where
  "Color = Attr ''color'' cast_str VNone"

definition Opacity :: "'f platform \<Rightarrow> 'f Attr" where
  "Opacity pf = Attr ''opacity'' cast_float (VFloat (float_1_0 pf))"

definition Visible :: "'f Attr" where
  "Visible = Attr ''visible'' cast_bool (VBool True)"

text \<open>
  The class attribute \<^verbatim>\<open>attributes\<close> of each class. \<^verbatim>\<open>TerrainToken\<close> and \<^verbatim>\<open>TextToken\<close>
  declare \<^verbatim>\<open>Attributes\<close> (capitalised), so their \<^verbatim>\<open>attributes\<close> is the inherited empty list.
\<close>

fun attributes :: "'f platform \<Rightarrow> tclass \<Rightarrow> 'f Attr list" where
  "attributes pf ChunkToken =
     [Attr ''x'' cast_int VNone, Attr ''y'' cast_int VNone,
      Attr ''width'' cast_int VNone, Attr ''height'' cast_int VNone]"
| "attributes pf DataToken =
     [Attr ''encoding'' cast_str VNone, Attr ''compression'' cast_str VNone]"
| "attributes pf FrameToken =
     [Attr ''tileid'' cast_int VNone, Attr ''duration'' cast_int VNone]"
| "attributes pf GridToken =
     [Attr ''name'' cast_str VNone, Attr ''offsetx'' cast_int (VInt 0),
      Attr ''offsety'' cast_int (VInt 0), Visible, Opacity pf]"
| "attributes pf GroupToken =
     [Attr ''name'' cast_str VNone, Attr ''offsetx'' cast_int (VInt 0),
      Attr ''offsety'' cast_int (VInt 0), Visible, Opacity pf]"
| "attributes pf ImagelayerToken =
     [Attr ''name'' cast_str (VStr ''ImageLayer''), Attr ''offsetx'' cast_int (VInt 0),
      Attr ''offsety'' cast_int (VInt 0), Visible, Opacity pf]"
| "attributes pf ImageToken =
     [Attr ''format'' cast_str VNone, Attr ''source'' cast_str VNone,
      Attr ''trans'' cast_str VNone, Attr ''width'' cast_int VNone,
      Attr ''height'' cast_int VNone]"
| "attributes pf LayerToken =
     [Attr ''name'' cast_str (VStr ''TileLayer''), Attr ''width'' cast_int VNone,
      Attr ''height'' cast_int VNone, Attr ''offsetx'' cast_int (VInt 0),
      Attr ''offsety'' cast_int (VInt 0), Visible, Opacity pf]"
| "attributes pf MapToken =
     [Attr ''version'' cast_str VNone, Attr ''tiledversion'' cast_str VNone,
      Attr ''orientation'' cast_str (VStr ''orthogonal''),
      Attr ''renderorder'' cast_str (VStr ''right-down''),
      Attr ''compressionlevel'' cast_int (VInt (- 1)),
      Attr ''width'' cast_int VNone, Attr ''height'' cast_int VNone,
      Attr ''tilewidth'' cast_int VNone, Attr ''tileheight'' cast_int VNone,
      Attr ''hexsidelength'' cast_float VNone, Attr ''staggeraxis'' cast_str VNone,
      Attr ''staggerindex'' cast_str VNone, Attr ''backgroundcolor'' cast_str VNone,
      Attr ''nextlayerid'' cast_int VNone, Attr ''nextobjectid'' cast_int VNone,
      Attr ''infinite'' cast_bool (VBool False)]"
| "attributes pf ObjectgroupToken =
     [Attr ''name'' cast_str VNone, Attr ''x'' cast_float (VInt 0),
      Attr ''y'' cast_float (VInt 0), Attr ''width'' cast_int VNone,
      Attr ''height'' cast_int VNone, Color, Visible, Opacity pf]"
| "attributes pf ObjectToken =
     [Attr ''name'' cast_str VNone, Attr ''id'' cast_int VNone, Attr ''type'' cast_str VNone,
      Attr ''x'' cast_float VNone, Attr ''y'' cast_float VNone,
      Attr ''width'' cast_float VNone, Attr ''height'' cast_float VNone,
      Attr ''rotation'' cast_float (VInt 0), Attr ''gid'' cast_int VNone,
      Attr ''template'' cast_str VNone, Visible, Opacity pf]"
| "attributes pf PolygonToken = [Attr ''points'' cast_read_points VNone]"
| "attributes pf PolylineToken = [Attr ''points'' cast_read_points VNone]"
| "attributes pf PropertyToken =
     [Attr ''type'' cast_noop VNone, Attr ''name'' cast_noop VNone,
      Attr ''value'' cast_noop VNone]"
| "attributes pf TileOffsetToken = [Attr ''x'' cast_int VNone, Attr ''y'' cast_int VNone]"
| "attributes pf TilesetToken =
     [Attr ''firstgid'' cast_int VNone, Attr ''source'' cast_str VNone,
      Attr ''name'' cast_str VNone, Attr ''tilewidth'' cast_int VNone,
      Attr ''tileheight'' cast_int VNone, Attr ''spacing'' cast_int (VInt 0),
      Attr ''margin'' cast_int (VInt 0), Attr ''tilecount'' cast_int VNone,
      Attr ''columns'' cast_int VNone, Attr ''objectalignment'' cast_str VNone]"
| "attributes pf TileToken =
     [Attr ''id'' cast_int VNone, Attr ''gid'' cast_int VNone, Attr ''type'' cast_str VNone,
      Attr ''terrain'' cast_str VNone, Attr ''probability'' cast_float VNone]"
| "attributes pf _ = []"

text \<open>\<^verbatim>\<open>self.attrib_types = {item.name: item for item in attr}\<close>.\<close>

definition attrib_types :: "'f platform \<Rightarrow> tclass \<Rightarrow> (string \<times> 'f Attr) list" where
  "attrib_types pf c = fold (\<lambda>item d. dict_set (attr_name item) item d) (attributes pf c) []"

section \<open>Token: construction and attribute access\<close>

text \<open>
  \<^verbatim>\<open>Token.__init__\<close> sets \<^verbatim>\<open>attrib\<close>, \<^verbatim>\<open>properties\<close> and \<^verbatim>\<open>attrib_types\<close>, then one
  attribute per entry of \<^verbatim>\<open>childtypes\<close> (a fresh \<^verbatim>\<open>list()\<close> or \<^verbatim>\<open>dict()\<close>); the
  subclass's \<^verbatim>\<open>__init__\<close> then makes its own assignments.
\<close>

fun childtypes :: "tclass \<Rightarrow> (string \<times> 'f obj) list" where
  "childtypes MapToken =
     [(''tilesets'', Lst []), (''layers'', Lst []), (''objectgroups'', Lst []),
      (''group'', Lst []), (''editorsettings'', Dict [])]"
| "childtypes _ = []"

fun init_assignments :: "tclass \<Rightarrow> (string \<times> 'f obj) list" where
  "init_assignments AnimationToken = [(''frames'', Lst [])]"
| "init_assignments DataToken =
     [(''tiles'', Lst []), (''chunks'', Lst []), (''data'', Val VNone)]"
| "init_assignments ImagelayerToken = [(''image'', Val VNone)]"
| "init_assignments LayerToken = [(''data'', Val VNone)]"
| "init_assignments MapToken =
     [(''tilesets'', Lst []), (''layers'', Lst []), (''objectgroups'', Lst [])]"
| "init_assignments ObjectgroupToken = [(''objects'', Lst [])]"
| "init_assignments ObjectToken = [(''points'', Lst []), (''ellipse'', Val (VBool False))]"
| "init_assignments PropertiesToken = [(''dictionary'', Dict [])]"
| "init_assignments TemplateToken = [(''tilesets'', Lst []), (''objects'', Lst [])]"
| "init_assignments TerraintypesToken = [(''terrains'', Lst [])]"
| "init_assignments TilesetToken = [(''image'', Val VNone), (''tiles'', Lst [])]"
| "init_assignments TileToken = [(''image'', Val VNone)]"
| "init_assignments _ = []"

definition Token_init :: "tclass \<Rightarrow> 'f token" where
  "Token_init c = Instance c [] (Dict []) (dict_update (childtypes c) (init_assignments c))"

definition set_field :: "'f token \<Rightarrow> string \<Rightarrow> 'f obj \<Rightarrow> 'f token" where
  "set_field self n v =
     Instance (class_of self) (attrib self) (properties self) (dict_set n v (instance_dict self))"

definition set_attrib :: "'f token \<Rightarrow> string \<Rightarrow> 'f obj \<Rightarrow> 'f token" where
  "set_attrib self k v =
     Instance (class_of self) (dict_set k v (attrib self)) (properties self) (instance_dict self)"

definition set_properties :: "'f token \<Rightarrow> 'f obj \<Rightarrow> 'f token" where
  "set_properties self v = Instance (class_of self) (attrib self) v (instance_dict self)"

text \<open>
  The \<^verbatim>\<open>add_\<close> methods of each class, by what their one-line bodies do:
  \<^verbatim>\<open>self.f.append(item)\<close>, \<^verbatim>\<open>self.f = item\<close>, \<^verbatim>\<open>raise UnsupportedFeature\<close>,
  \<^verbatim>\<open>self.ellipse = True\<close>, the two bodies of \<^verbatim>\<open>add_polygon\<close> and \<^verbatim>\<open>add_polyline\<close>,
  \<^verbatim>\<open>self.properties = item.dictionary\<close> and \<^verbatim>\<open>self.dictionary[item.name] = item.value\<close>.
\<close>

datatype add_action =
    Append string
  | Assign string
  | Raise_Unsupported
  | Set_Ellipse
  | Add_Points bool
  | Set_Properties
  | Set_Entry

fun own_add_methods :: "tclass \<Rightarrow> (string \<times> add_action) list" where
  "own_add_methods AnimationToken = [(''add_frame'', Append ''frames'')]"
| "own_add_methods ChunkToken = [(''add_tile'', Raise_Unsupported)]"
| "own_add_methods DataToken =
     [(''add_tile'', Append ''tiles''), (''add_chunk'', Append ''chunks'')]"
| "own_add_methods GroupToken =
     [(''add_layer'', Raise_Unsupported), (''add_objectgroup'', Raise_Unsupported),
      (''add_imagelayer'', Raise_Unsupported), (''add_group'', Raise_Unsupported)]"
| "own_add_methods ImagelayerToken = [(''add_image'', Assign ''image'')]"
| "own_add_methods ImageToken = [(''add_data'', Raise_Unsupported)]"
| "own_add_methods LayerToken = [(''add_data'', Assign ''data'')]"
| "own_add_methods MapToken =
     [(''add_tileset'', Append ''tilesets''), (''add_layer'', Append ''layers''),
      (''add_objectgroup'', Append ''objectgroups''), (''add_imagelayer'', Append ''layers''),
      (''add_group'', Raise_Unsupported)]"
| "own_add_methods ObjectgroupToken = [(''add_object'', Append ''objects'')]"
| "own_add_methods ObjectToken =
     [(''add_ellipse'', Set_Ellipse), (''add_polygon'', Add_Points True),
      (''add_polyline'', Add_Points False), (''add_text'', Raise_Unsupported),
      (''add_image'', Raise_Unsupported)]"
| "own_add_methods PropertiesToken = [(''add_property'', Set_Entry)]"
| "own_add_methods TemplateToken =
     [(''add_terrain'', Append ''terrains''), (''add_object'', Append ''objects'')]"
| "own_add_methods TerraintypesToken = [(''add_terrain'', Append ''terrains'')]"
| "own_add_methods TilesetToken =
     [(''add_tileoffset'', Raise_Unsupported), (''add_grid'', Raise_Unsupported),
      (''add_image'', Assign ''image''), (''add_terraintypes'', Raise_Unsupported),
      (''add_tile'', Append ''tiles''), (''add_wangsets'', Raise_Unsupported)]"
| "own_add_methods TileToken =
     [(''add_image'', Assign ''image''), (''add_objectgroup'', Raise_Unsupported),
      (''add_animation'', Raise_Unsupported)]"
| "own_add_methods _ = []"

text \<open>Every class inherits \<^verbatim>\<open>add_properties\<close> from \<^verbatim>\<open>Token\<close>.\<close>

definition add_methods :: "tclass \<Rightarrow> (string \<times> add_action) list" where
  "add_methods c = own_add_methods c @ [(''add_properties'', Set_Properties)]"

text \<open>
  The names a class gives its instances: the methods of \<^verbatim>\<open>Token\<close> and of the class, and
  the class-level tables. (The attributes every Python object has, such as
  \<^verbatim>\<open>__class__\<close>, are not part of the model.)
\<close>

definition method_names :: "tclass \<Rightarrow> string list" where
  "method_names c =
     [''__init__'', ''__getattr__'', ''as_object'', ''start'', ''end'', ''combine'']
     @ map fst (add_methods c)
     @ (if c = TilesetToken then [''load_tiles''] else [])"

definition table_names :: "tclass \<Rightarrow> string list" where
  "table_names c =
     [''childtypes'', ''attributes'']
     @ (if c = TerrainToken \<or> c = TextToken then [''Attributes''] else [])"

text \<open>
  Ordinary attribute lookup: the instance's own attributes first, then the class.
  \<open>None\<close> when the name is found in neither.
\<close>

definition instance_attr :: "'f token \<Rightarrow> string \<Rightarrow> 'f obj option" where
  "instance_attr self name =
     (if name = ''attrib'' then Some (Dict (map (\<lambda>(k, v). (VStr k, v)) (attrib self)))
      else if name = ''properties'' then Some (properties self)
      else if name = ''attrib_types'' then Some (Other ''attrib_types'')
      else (case map_of (instance_dict self) name of
              Some v \<Rightarrow> Some v
            | None \<Rightarrow>
                if name \<in> set (method_names (class_of self)) then Some (Method name)
                else if name \<in> set (table_names (class_of self)) then Some (Other name)
                else None))"

text \<open>
  \<^verbatim>\<open>Token.__getattr__\<close>, which Python calls when ordinary lookup has failed:
  \<^verbatim>\<open>try: return self.attrib[name]\<close>, \<^verbatim>\<open>except KeyError: raise AttributeError\<close>.
\<close>

definition Token_getattr :: "'f token \<Rightarrow> string \<Rightarrow> exn + 'f obj" where
  "Token_getattr self name =
     (case dict_get (attrib self) name of
        Inl e \<Rightarrow> if e = KeyError then Inl AttributeError else Inl e
      | Inr v \<Rightarrow> Inr v)"

text \<open>Reading \<^verbatim>\<open>self.name\<close> on a token.\<close>

definition py_getattr :: "'f token \<Rightarrow> string \<Rightarrow> exn + 'f obj" where
  "py_getattr self name =
     (case instance_attr self name of Some v \<Rightarrow> Inr v | None \<Rightarrow> Token_getattr self name)"

text \<open>
  Reading an attribute of any object. It is used for the names \<^verbatim>\<open>width\<close>, \<^verbatim>\<open>height\<close>,
  \<^verbatim>\<open>source\<close>, \<^verbatim>\<open>trans\<close>, \<^verbatim>\<open>gid\<close> and \<^verbatim>\<open>as_object\<close>, which no built-in type has.
\<close>

definition obj_getattr :: "'f obj \<Rightarrow> string \<Rightarrow> exn + 'f obj" where
  "obj_getattr x name = (case x of Tok t \<Rightarrow> py_getattr t name | _ \<Rightarrow> Inl AttributeError)"

section \<open>Token.start\<close>

text \<open>
  The first loop of \<^verbatim>\<open>Token.start\<close>: for every declared attribute, the raw value
  \<^verbatim>\<open>init[key]\<close>, or the declared default when the key is missing.
\<close>

definition start_defaults ::
  "(string \<times> 'f pyval) list \<Rightarrow> (string \<times> 'f Attr) list \<Rightarrow> (string \<times> 'f pyval) list" where
  "start_defaults init types =
     fold (\<lambda>(key, value) attrib.
             dict_set key
               (case dict_get init key of Inl e \<Rightarrow> attr_default value | Inr raw_value \<Rightarrow> raw_value)
               attrib)
       types []"

text \<open>
  The second loop: every value that is not \<^verbatim>\<open>None\<close> is replaced by
  \<^verbatim>\<open>self.attrib_types[key].cls(value)\<close>, in the order of the mapping; an exception of the
  caster leaves the method.
\<close>

fun cast_values ::
  "'f platform \<Rightarrow> (string \<times> 'f Attr) list \<Rightarrow> (string \<times> 'f pyval) list
     \<Rightarrow> exn + (string \<times> 'f obj) list" where
  "cast_values pf types [] = Inr []"
| "cast_values pf types ((key, value) # rest) =
     (case value of
        VNone \<Rightarrow>
          (case cast_values pf types rest of
             Inl e \<Rightarrow> Inl e
           | Inr r \<Rightarrow> Inr ((key, Val VNone) # r))
      | _ \<Rightarrow>
          (case dict_get types key of
             Inl e \<Rightarrow> Inl e
           | Inr a \<Rightarrow>
               (case apply_cast pf (attr_cls a) value of
                  Inl e \<Rightarrow> Inl e
                | Inr v \<Rightarrow>
                    (case cast_values pf types rest of
                       Inl e \<Rightarrow> Inl e
                     | Inr r \<Rightarrow> Inr ((key, v) # r)))))"

definition Token_start ::
  "'f platform \<Rightarrow> 'f token \<Rightarrow> (string \<times> 'f pyval) list \<Rightarrow> exn + 'f token" where
  "Token_start pf self init =
     (let types = attrib_types pf (class_of self) in
      case cast_values pf types (start_defaults init types) of
        Inl e \<Rightarrow> Inl e
      | Inr attrib' \<Rightarrow>
          Inr (Instance (class_of self) attrib' (properties self) (instance_dict self)))"

text \<open>
  \<^verbatim>\<open>PropertyToken.start\<close>: after the inherited method, the value is cast by the type that
  \<^verbatim>\<open>init["type"]\<close> names; a \<^verbatim>\<open>KeyError\<close> on the way stores the raw \<^verbatim>\<open>init["value"]\<close>
  instead.
\<close>

definition PropertyToken_start ::
  "'f platform \<Rightarrow> 'f token \<Rightarrow> (string \<times> 'f pyval) list \<Rightarrow> exn + 'f token" where
  "PropertyToken_start pf self init =
     (case Token_start pf self init of
        Inl e \<Rightarrow> Inl e
      | Inr self' \<Rightarrow>
          (case and_then (dict_get init ''type'')
                  (\<lambda>ty. and_then
                     (case ty of VStr n \<Rightarrow> dict_get tiled_property_type n | _ \<Rightarrow> Inl KeyError)
                     (\<lambda>type'. and_then (dict_get init ''value'') (apply_cast pf type'))) of
             Inr v \<Rightarrow> Inr (set_attrib self' ''value'' v)
           | Inl e \<Rightarrow>
               if e = KeyError then
                 (case dict_get init ''value'' of
                    Inl e' \<Rightarrow> Inl e'
                  | Inr raw \<Rightarrow> Inr (set_attrib self' ''value'' (Val raw)))
               else Inl e))"

definition start :: "'f platform \<Rightarrow> 'f token \<Rightarrow> (string \<times> 'f pyval) list \<Rightarrow> exn + 'f token" where
  "start pf self init =
     (if class_of self = PropertyToken then PropertyToken_start pf self init
      else Token_start pf self init)"

section \<open>Iteration, indexing and addition\<close>

fun py_iter :: "'f obj \<Rightarrow> exn + 'f obj list" where
  "py_iter (Lst xs) = Inr xs"
| "py_iter (Tup xs) = Inr xs"
| "py_iter (Dict d) = Inr (map (\<lambda>(k, v). Val k) d)"
| "py_iter (Arr xs) = Inr (map (\<lambda>i. Val (VInt i)) xs)"
| "py_iter (Val (VStr s)) = Inr (map (\<lambda>c. Val (VStr [c])) s)"
| "py_iter (Other n) = Inl Unmodelled"
| "py_iter _ = Inl TypeError"

text \<open>\<^verbatim>\<open>x[n]\<close> for a constant index \<^verbatim>\<open>n\<close> that is not negative.\<close>

fun py_getitem :: "'f obj \<Rightarrow> nat \<Rightarrow> exn + 'f obj" where
  "py_getitem (Lst xs) n = (if n < length xs then Inr (xs ! n) else Inl IndexError)"
| "py_getitem (Tup xs) n = (if n < length xs then Inr (xs ! n) else Inl IndexError)"
| "py_getitem (Arr xs) n = (if n < length xs then Inr (Val (VInt (xs ! n))) else Inl IndexError)"
| "py_getitem (Val (VStr s)) n = (if n < length s then Inr (Val (VStr [s ! n])) else Inl IndexError)"
| "py_getitem (Dict d) n = Inl Unmodelled"
| "py_getitem (Other m) n = Inl Unmodelled"
| "py_getitem _ n = Inl TypeError"

text \<open>
  \<^verbatim>\<open>a + b\<close> on numbers; \<^verbatim>\<open>None\<close> on either side is a \<^verbatim>\<open>TypeError\<close>. Other operands do
  not occur.
\<close>

fun number_of :: "'f obj \<Rightarrow> (int + 'f) option" where
  "number_of (Val (VInt i)) = Some (Inl i)"
| "number_of (Val (VBool b)) = Some (Inl (if b then 1 else 0))"
| "number_of (Val (VFloat x)) = Some (Inr x)"
| "number_of _ = None"

fun is_none :: "'f obj \<Rightarrow> bool" where
  "is_none (Val VNone) = True"
| "is_none _ = False"

definition py_add :: "'f platform \<Rightarrow> 'f obj \<Rightarrow> 'f obj \<Rightarrow> exn + 'f obj" where
  "py_add pf a b =
     (case (number_of a, number_of b) of
        (Some (Inl i), Some (Inl j)) \<Rightarrow> Inr (Val (VInt (i + j)))
      | (Some (Inr x), Some (Inr y)) \<Rightarrow> Inr (Val (VFloat (float_add pf x y)))
      | (Some (Inr x), Some (Inl j)) \<Rightarrow>
          (case float_of_int pf j of
             None \<Rightarrow> Inl OverflowError
           | Some y \<Rightarrow> Inr (Val (VFloat (float_add pf x y))))
      | (Some (Inl i), Some (Inr y)) \<Rightarrow>
          (case float_of_int pf i of
             None \<Rightarrow> Inl OverflowError
           | Some x \<Rightarrow> Inr (Val (VFloat (float_add pf x y))))
      | _ \<Rightarrow> if is_none a \<or> is_none b then Inl TypeError else Inl Unmodelled)"

text \<open>\<^verbatim>\<open>move_points(points, x, y)\<close> is \<^verbatim>\<open>tuple((i[0] + x, i[1] + y) for i in points)\<close>.\<close>

definition move_points :: "'f platform \<Rightarrow> 'f obj \<Rightarrow> 'f obj \<Rightarrow> 'f obj \<Rightarrow> exn + 'f obj" where
  "move_points pf points x y =
     and_then (py_iter points)
       (\<lambda>elems. and_then
          (map_result
             (\<lambda>i. and_then (py_getitem i 0)
                (\<lambda>i0. and_then (py_add pf i0 x)
                   (\<lambda>px. and_then (py_getitem i 1)
                      (\<lambda>i1. and_then (py_add pf i1 y)
                         (\<lambda>py. Inr (Tup [px, py]))))))
             elems)
          (\<lambda>moved. Inr (Tup moved)))"

section \<open>Token.combine and the add methods\<close>

fun class_name :: "tclass \<Rightarrow> string" where
  "class_name Token = ''Token''"
| "class_name AnimationToken = ''AnimationToken''"
| "class_name ChunkToken = ''ChunkToken''"
| "class_name DataToken = ''DataToken''"
| "class_name EllipseToken = ''EllipseToken''"
| "class_name FrameToken = ''FrameToken''"
| "class_name GridToken = ''GridToken''"
| "class_name GroupToken = ''GroupToken''"
| "class_name ImagelayerToken = ''ImagelayerToken''"
| "class_name ImageToken = ''ImageToken''"
| "class_name LayerToken = ''LayerToken''"
| "class_name MapToken = ''MapToken''"
| "class_name ObjectgroupToken = ''ObjectgroupToken''"
| "class_name ObjectToken = ''ObjectToken''"
| "class_name PointToken = ''PointToken''"
| "class_name PolygonToken = ''PolygonToken''"
| "class_name PolylineToken = ''PolylineToken''"
| "class_name PropertiesToken = ''PropertiesToken''"
| "class_name PropertyToken = ''PropertyToken''"
| "class_name TemplateToken = ''TemplateToken''"
| "class_name TerrainToken = ''TerrainToken''"
| "class_name TerraintypesToken = ''TerraintypesToken''"
| "class_name TextToken = ''TextToken''"
| "class_name TileOffsetToken = ''TileOffsetToken''"
| "class_name TilesetSourceToken = ''TilesetSourceToken''"
| "class_name TilesetToken = ''TilesetToken''"
| "class_name TileToken = ''TileToken''"

text \<open>
  A list or dictionary that \<^verbatim>\<open>self.f\<close> names is changed in place: where \<^verbatim>\<open>self.f\<close> was
  found, in the instance's own attributes or else in \<^verbatim>\<open>self.attrib\<close>, the changed object
  takes its place.
\<close>

definition store :: "'f token \<Rightarrow> string \<Rightarrow> 'f obj \<Rightarrow> 'f token" where
  "store self f v =
     (case map_of (instance_dict self) f of
        Some old \<Rightarrow> set_field self f v
      | None \<Rightarrow> set_attrib self f v)"

text \<open>
  The body of an \<^verbatim>\<open>add_\<close> method, run on \<^verbatim>\<open>self\<close> and \<^verbatim>\<open>item\<close>. Only a list has
  \<^verbatim>\<open>append\<close>. A property is stored under a name that is a string or \<^verbatim>\<open>None\<close>.
\<close>

fun run_add :: "'f platform \<Rightarrow> add_action \<Rightarrow> 'f token \<Rightarrow> 'f token \<Rightarrow> exn + 'f token" where
  "run_add pf (Append f) self item =
     (case py_getattr self f of
        Inl e \<Rightarrow> Inl e
      | Inr (Lst xs) \<Rightarrow> Inr (store self f (Lst (xs @ [Tok item])))
      | Inr (Tok t) \<Rightarrow>
          (case py_getattr t ''append'' of Inl e \<Rightarrow> Inl e | Inr _ \<Rightarrow> Inl Unmodelled)
      | Inr _ \<Rightarrow> Inl AttributeError)"
| "run_add pf (Assign f) self item = Inr (set_field self f (Tok item))"
| "run_add pf Raise_Unsupported self item = Inl (UnsupportedFeature [])"
| "run_add pf Set_Ellipse self item = Inr (set_field self ''ellipse'' (Val (VBool True)))"
| "run_add pf (Add_Points closed) self item =
     and_then (py_getattr item ''points'')
       (\<lambda>points. and_then (py_getattr self ''x'')
          (\<lambda>x. and_then (py_getattr self ''y'')
             (\<lambda>y. and_then (move_points pf points x y)
                (\<lambda>moved. Inr (set_attrib (set_field self ''points'' moved) ''closed''
                                 (Val (VBool closed)))))))"
| "run_add pf Set_Properties self item =
     and_then (py_getattr item ''dictionary'') (\<lambda>d. Inr (set_properties self d))"
| "run_add pf Set_Entry self item =
     and_then (py_getattr item ''value'')
       (\<lambda>v. and_then (py_getattr self ''dictionary'')
          (\<lambda>target. and_then (py_getattr item ''name'')
             (\<lambda>key.
                (case target of
                   Dict d \<Rightarrow>
                     (case key of
                        Val VNone \<Rightarrow> Inr (store self ''dictionary'' (Dict (dict_set VNone v d)))
                      | Val (VStr n) \<Rightarrow>
                          Inr (store self ''dictionary'' (Dict (dict_set (VStr n) v d)))
                      | _ \<Rightarrow> Inl Unmodelled)
                 | _ \<Rightarrow> Inl Unmodelled))))"

text \<open>
  \<^verbatim>\<open>Token.combine(child, tag)\<close>: \<^verbatim>\<open>getattr(self, "add_" + tag)\<close>, with \<^verbatim>\<open>AttributeError\<close>
  turned into \<^verbatim>\<open>UnsupportedFeature(self.__class__.__name__, tag)\<close>; then the call.
\<close>

definition combine :: "'f platform \<Rightarrow> 'f token \<Rightarrow> 'f token \<Rightarrow> string \<Rightarrow> exn + 'f token" where
  "combine pf self child tag =
     (case py_getattr self (''add_'' @ tag) of
        Inl e \<Rightarrow>
          if e = AttributeError then Inl (UnsupportedFeature [class_name (class_of self), tag])
          else Inl e
      | Inr (Method m) \<Rightarrow>
          (case map_of (add_methods (class_of self)) m of
             Some action \<Rightarrow> run_add pf action self child
           | None \<Rightarrow> Inl Unmodelled)
      | Inr _ \<Rightarrow> Inl TypeError)"

section \<open>Token.end\<close>

text \<open>
  \<^verbatim>\<open>DataToken.end(content, context)\<close>. \<open>parent\<close> is \<^verbatim>\<open>context["parent"]\<close>: \<open>None\<close> for
  Python's \<^verbatim>\<open>None\<close>. The width and height are read from the parent before anything
  else; \<^verbatim>\<open>content.strip()\<close> needs a string.
\<close>

definition DataToken_end ::
  "'f platform \<Rightarrow> 'f token \<Rightarrow> string option \<Rightarrow> 'f token option \<Rightarrow> exn + 'f token" where
  "DataToken_end pf self content parent =
     (case parent of
        None \<Rightarrow> Inl AttributeError
      | Some p \<Rightarrow>
          and_then (py_getattr p ''width'')
            (\<lambda>w. and_then (py_getattr p ''height'')
               (\<lambda>h.
                  (case content of
                     None \<Rightarrow> Inl AttributeError
                   | Some text \<Rightarrow>
                       if strip text \<noteq> [] then
                         and_then (py_getattr self ''encoding'')
                           (\<lambda>encoding. and_then (py_getattr self ''compression'')
                              (\<lambda>compression. and_then (unpack pf (PStr text) encoding compression)
                                 (\<lambda>data. and_then (unroll_layer_data data)
                                    (\<lambda>gids. and_then (rowify gids w h)
                                       (\<lambda>rows. Inr (set_field self ''data'' rows))))))
                       else
                         and_then (py_getattr self ''tiles'')
                           (\<lambda>tiles. and_then (py_truth pf tiles)
                              (\<lambda>some.
                                 if some then
                                   and_then (py_iter tiles)
                                     (\<lambda>elems. and_then (map_result (\<lambda>i. obj_getattr i ''gid'') elems)
                                        (\<lambda>gids. and_then (rowify gids w h)
                                           (\<lambda>rows. Inr (set_field self ''data'' rows))))
                                 else Inl (Exception ''no layer data?'')))))))"

text \<open>
  \<^verbatim>\<open>ImageToken.end\<close> with the loader of \<^verbatim>\<open>slurp\<close>'s context, \<^verbatim>\<open>default_image_loader\<close>:
  \<^verbatim>\<open>loader()\<close> returns \<^verbatim>\<open>(filename, None, None)\<close>.
\<close>

definition ImageToken_end :: "'f token \<Rightarrow> exn + 'f token" where
  "ImageToken_end self =
     and_then (py_getattr self ''source'')
       (\<lambda>source. Inr (set_field self ''image'' (Tup [source, Val VNone, Val VNone])))"

text \<open>
  \<^verbatim>\<open>TilesetSourceToken.end\<close> starts by reading \<^verbatim>\<open>source\<close>, a name that is bound nowhere.
\<close>

definition TilesetSourceToken_end :: "'f token \<Rightarrow> exn + 'f token" where
  "TilesetSourceToken_end self = Inl NameError"

text \<open>
  Integer arithmetic of \<^verbatim>\<open>load_tiles\<close>; \<^verbatim>\<open>None\<close> on either side is a \<^verbatim>\<open>TypeError\<close>. The
  attributes involved are integers or \<^verbatim>\<open>None\<close>.
\<close>

definition int_op :: "(int \<Rightarrow> int \<Rightarrow> int) \<Rightarrow> 'f obj \<Rightarrow> 'f obj \<Rightarrow> exn + 'f obj" where
  "int_op f a b =
     (case (as_index a, as_index b) of
        (Some i, Some j) \<Rightarrow> Inr (Val (VInt (f i j)))
      | _ \<Rightarrow> if is_none a \<or> is_none b then Inl TypeError else Inl Unmodelled)"

text \<open>\<^verbatim>\<open>range(a, b, c)\<close>: three integers, the step not zero.\<close>

definition py_range3 :: "'f obj \<Rightarrow> 'f obj \<Rightarrow> 'f obj \<Rightarrow> exn + unit" where
  "py_range3 a b c =
     (case (as_index a, as_index b, as_index c) of
        (Some i, Some j, Some k) \<Rightarrow> if k = 0 then Inl ValueError else Inr ()
      | _ \<Rightarrow> Inl TypeError)"

text \<open>
  \<^verbatim>\<open>TilesetToken.load_tiles\<close>: it reads the tile and image sizes, builds two ranges and
  their product, makes a loader and enumerates the positions from \<^verbatim>\<open>self.firstgid\<close>. The
  loop body keeps nothing, so the method changes no state; it can only raise.
\<close>

definition tile_range :: "'f token \<Rightarrow> 'f obj \<Rightarrow> 'f obj \<Rightarrow> exn + unit" where
  "tile_range self extent t =
     and_then (py_getattr self ''margin'')
       (\<lambda>start. and_then (py_getattr self ''margin'')
          (\<lambda>margin. and_then (int_op (+) extent margin)
             (\<lambda>s1. and_then (int_op (-) s1 t)
                (\<lambda>s2. and_then (int_op (+) s2 (Val (VInt 1)))
                   (\<lambda>stop. and_then (py_getattr self ''spacing'')
                      (\<lambda>spacing. and_then (int_op (+) t spacing)
                         (\<lambda>step. py_range3 start stop step)))))))"

definition load_tiles :: "'f token \<Rightarrow> exn + unit" where
  "load_tiles self =
     and_then (py_getattr self ''tilewidth'')
       (\<lambda>tw. and_then (py_getattr self ''tileheight'')
          (\<lambda>th. and_then (py_getattr self ''image'')
             (\<lambda>image. and_then (obj_getattr image ''width'')
                (\<lambda>width. and_then (obj_getattr image ''height'')
                   (\<lambda>height. and_then (tile_range self height th)
                      (\<lambda>_. and_then (tile_range self width tw)
                         (\<lambda>_. and_then (obj_getattr image ''source'')
                            (\<lambda>path. and_then (obj_getattr image ''trans'')
                               (\<lambda>trans. and_then (py_getattr self ''firstgid'')
                                  (\<lambda>firstgid.
                                     (case as_index firstgid of
                                        None \<Rightarrow> Inl TypeError
                                      | Some g \<Rightarrow> Inr ())))))))))))"

definition TilesetToken_end :: "'f token \<Rightarrow> exn + 'f token" where
  "TilesetToken_end self =
     and_then (py_getattr self ''source'')
       (\<lambda>source. if is_none source then and_then (load_tiles self) (\<lambda>_. Inr self) else Inr self)"

text \<open>\<^verbatim>\<open>token.end(content, context)\<close>, by the class of the token.\<close>

definition end_token ::
  "'f platform \<Rightarrow> 'f token \<Rightarrow> string option \<Rightarrow> 'f token option \<Rightarrow> exn + 'f token" where
  "end_token pf self content parent =
     (if class_of self = DataToken then DataToken_end pf self content parent
      else if class_of self = ImageToken then ImageToken_end self
      else if class_of self = TilesetSourceToken then TilesetSourceToken_end self
      else if class_of self = TilesetToken then TilesetToken_end self
      else Inr self)"

section \<open>as_object\<close>

lemma size_map_of:
  "map_of d k = Some v \<Longrightarrow> size v \<le> size_list (size_prod (\<lambda>_. 0) size) d"
  by (induction d) (auto split: if_splits)

lemma size_iter_elem:
  "py_iter ob = Inr things \<Longrightarrow> Tok t \<in> set things \<Longrightarrow> size t < size ob"
proof (cases ob rule: py_iter.cases)
  case (1 xs)
  assume "py_iter ob = Inr things" "Tok t \<in> set things"
  with 1 have "Tok t \<in> set xs" by simp
  then have "size (Tok t) \<le> size_list size xs" by (rule size_list_estimation') simp
  with 1 show ?thesis by simp
next
  case (2 xs)
  assume "py_iter ob = Inr things" "Tok t \<in> set things"
  with 2 have "Tok t \<in> set xs" by simp
  then have "size (Tok t) \<le> size_list size xs" by (rule size_list_estimation') simp
  with 2 show ?thesis by simp
qed auto

lemma size_getattr_elem:
  assumes "py_getattr self name = Inr ob" and "py_iter ob = Inr things"
    and "Tok t \<in> set things"
  shows "size t < size self"
proof -
  have elem: "size t < size ob" using assms(2,3) by (rule size_iter_elem)
  obtain c a p d where self: "self = Instance c a p d" by (cases self)
  consider (attrib) "ob = Dict (map (\<lambda>(k, v). (VStr k, v)) a)"
    | (props) "ob = p"
    | (other) n where "ob = Other n"
    | (meth) n where "ob = Method n"
    | (dict) "map_of d name = Some ob"
    | (attr) "map_of a name = Some ob"
    using assms(1)
    by (auto simp add: self py_getattr_def instance_attr_def Token_getattr_def dict_get_def
        split: if_splits option.splits)
  then show ?thesis
  proof cases
    case attrib
    with assms(2,3) show ?thesis by auto
  next
    case props
    with elem show ?thesis by (simp add: self)
  next
    case other
    with assms(2) show ?thesis by simp
  next
    case meth
    with assms(2) show ?thesis by simp
  next
    case dict
    from size_map_of [OF this] elem show ?thesis by (simp add: self)
  next
    case attr
    from size_map_of [OF this] elem show ?thesis by (simp add: self)
  qed
qed

text \<open>
  \<^verbatim>\<open>Token.as_object\<close> returns the attributes and, under \<^verbatim>\<open>"properties"\<close>, the properties.
  \<^verbatim>\<open>MapToken.as_object\<close> adds, for each of \<^verbatim>\<open>tilesets\<close>, \<^verbatim>\<open>layers\<close> and \<^verbatim>\<open>objectgroups\<close>,
  the list of \<^verbatim>\<open>thing.as_object()\<close> for the things of \<^verbatim>\<open>getattr(self, name)\<close>.
\<close>

function as_object :: "'f token \<Rightarrow> exn + 'f obj" where
  "as_object self =
     (let obj = dict_set (VStr ''properties'') (properties self)
                  (dict_update [] (map (\<lambda>(k, v). (VStr k, v)) (attrib self)))
      in if class_of self = MapToken then
           (case map_result
                   (\<lambda>name.
                      and_then (py_getattr self name)
                        (\<lambda>ob. and_then (py_iter ob)
                           (\<lambda>things. and_then
                              (map_result
                                 (\<lambda>thing. case thing of
                                              Tok t \<Rightarrow> as_object t
                                            | _ \<Rightarrow> Inl AttributeError)
                                 things)
                              (\<lambda>r. Inr (VStr name, Lst r)))))
                   [''tilesets'', ''layers'', ''objectgroups''] of
              Inl e \<Rightarrow> Inl e
            | Inr children \<Rightarrow> Inr (Dict (dict_update obj children)))
         else Inr (Dict obj))"
  by pat_completeness auto
termination
  by (relation "measure size") (auto intro: size_getattr_elem)

declare as_object.simps [simp del]

section \<open>The registry and the driver\<close>

text \<open>
  \<^verbatim>\<open>get_processor(feature)\<close> is \<^verbatim>\<open>globals()[feature + "Token"]()\<close>, with \<^verbatim>\<open>KeyError\<close>
  turned into \<^verbatim>\<open>UnsupportedFeature(feature)\<close>. The module-level names that end in
  \<^verbatim>\<open>Token\<close> are its classes.
\<close>

definition token_classes :: "(string \<times> tclass) list" where
  "token_classes =
     map (\<lambda>c. (class_name c, c))
       [Token, AnimationToken, ChunkToken, DataToken, EllipseToken, FrameToken, GridToken,
        GroupToken, ImagelayerToken, ImageToken, LayerToken, MapToken, ObjectgroupToken,
        ObjectToken, PointToken, PolygonToken, PolylineToken, PropertiesToken, PropertyToken,
        TemplateToken, TerrainToken, TerraintypesToken, TextToken, TileOffsetToken,
        TilesetSourceToken, TilesetToken, TileToken]"

definition get_processor :: "string \<Rightarrow> exn + 'f token" where
  "get_processor feature =
     (case dict_get token_classes (feature @ ''Token'') of
        Inl e \<Rightarrow> if e = KeyError then Inl (UnsupportedFeature [feature]) else Inl e
      | Inr c \<Rightarrow> Inr (Token_init c))"

text \<open>
  \<^verbatim>\<open>get_loader(path)\<close>: the extension of the lower-cased path picks \<^verbatim>\<open>load_json\<close> or
  \<^verbatim>\<open>load_tmx\<close>, the module-level names that start with \<^verbatim>\<open>load_\<close>.
\<close>

definition get_loader :: "'f platform \<Rightarrow> string \<Rightarrow> exn + 'f source" where
  "get_loader pf path =
     (case splitext pf (lower path) of
        (name, ext) \<Rightarrow>
          (case dict_get [(''load_json'', load_json pf), (''load_tmx'', load_tmx pf)]
                  (''load_'' @ drop 1 ext) of
             Inl e \<Rightarrow> if e = KeyError then Inl (UnsupportedFeature [ext]) else Inl e
           | Inr func \<Rightarrow> Inr (func path)))"

text \<open>
  The state of the loop of \<^verbatim>\<open>slurp\<close>: the stack (\<^verbatim>\<open>deque([None])\<close> at the start, its
  right end first in the list) and the variable \<^verbatim>\<open>token\<close>. \<open>None\<close> is Python's \<^verbatim>\<open>None\<close>.
  \<^verbatim>\<open>context["parent"]\<close> is passed to \<^verbatim>\<open>end\<close> directly.
\<close>

type_synonym 'f slurp_state = "'f token option list \<times> 'f token option"

definition slurp_initial :: "'f slurp_state" where
  "slurp_initial = ([None], None)"

text \<open>One turn of the loop body, for one item of the source.\<close>

definition slurp_step :: "'f platform \<Rightarrow> 'f event \<Rightarrow> 'f slurp_state \<Rightarrow> exn + 'f slurp_state" where
  "slurp_step pf item state =
     (case item of
        (event, tag, init, text) \<Rightarrow>
          (case state of
             (stack, token) \<Rightarrow>
               if event = ''start'' then
                 and_then (get_processor tag)
                   (\<lambda>token. and_then (start pf token init)
                      (\<lambda>token. Inr (Some token # stack, Some token)))
               else if event = ''end'' then
                 (case stack of
                    [] \<Rightarrow> Inl IndexError
                  | token # stack' \<Rightarrow>
                      (case stack' of
                         [] \<Rightarrow> Inl IndexError
                       | parent # below \<Rightarrow>
                           (case token of
                              None \<Rightarrow> Inl AttributeError
                            | Some tok \<Rightarrow>
                                and_then (end_token pf tok text parent)
                                  (\<lambda>tok'.
                                     (case parent of
                                        None \<Rightarrow> Inr (stack', Some tok')
                                      | Some par \<Rightarrow>
                                          and_then (combine pf par tok' (lower tag))
                                            (\<lambda>par'. Inr (Some par' # below, Some tok')))))))
               else Inr state))"

fun slurp_loop :: "'f platform \<Rightarrow> 'f event list \<Rightarrow> 'f slurp_state \<Rightarrow> exn + 'f slurp_state" where
  "slurp_loop pf [] state = Inr state"
| "slurp_loop pf (item # items) state =
     (case slurp_step pf item state of
        Inl e \<Rightarrow> Inl e
      | Inr state' \<Rightarrow> slurp_loop pf items state')"

text \<open>
  After the loop, \<^verbatim>\<open>slurp\<close> calls \<^verbatim>\<open>pprint.pprint(token.as_object())\<close>; the two lines after
  it are comments, so the function returns \<^verbatim>\<open>None\<close>. The result is the pair of the object
  that was printed and the returned object.
\<close>

definition slurp_finish :: "'f slurp_state \<Rightarrow> exn + 'f obj \<times> 'f obj" where
  "slurp_finish state =
     (case snd state of
        None \<Rightarrow> Inl AttributeError
      | Some token \<Rightarrow>
          (case as_object token of
             Inl e \<Rightarrow> Inl e
           | Inr printed \<Rightarrow> Inr (printed, Val VNone)))"

text \<open>\<^verbatim>\<open>slurp\<close> on the items of a source, and \<^verbatim>\<open>slurp(path)\<close>.\<close>

definition slurp_source :: "'f platform \<Rightarrow> 'f source \<Rightarrow> exn + 'f obj \<times> 'f obj" where
  "slurp_source pf src =
     (case slurp_loop pf (fst src) slurp_initial of
        Inl e \<Rightarrow> Inl e
      | Inr state \<Rightarrow> (case snd src of Some e \<Rightarrow> Inl e | None \<Rightarrow> slurp_finish state))"

definition slurp :: "'f platform \<Rightarrow> string \<Rightarrow> exn + 'f obj \<times> 'f obj" where
  "slurp pf path =
     (case get_loader pf path of
        Inl e \<Rightarrow> Inl e
      | Inr src \<Rightarrow> slurp_source pf src)"

text \<open>The values an unsigned short holds.\<close>

definition fits_H :: "int \<Rightarrow> bool" where
  "fits_H i = (0 \<le> i \<and> i \<le> 65535)"

text \<open>
  The value the first loop of \<^verbatim>\<open>Token.start\<close> resolves for a declared attribute: the raw
  value if the event carries one, else the declared default.
\<close>

definition raw_value :: "(string \<times> 'f pyval) list \<Rightarrow> 'f Attr \<Rightarrow> 'f pyval" where
  "raw_value init a =
     (case dict_get init (attr_name a) of Inl e \<Rightarrow> attr_default a | Inr raw \<Rightarrow> raw)"



section \<open>Tile identifiers: proofs\<close>

lemma gid_masks:
  "GID_TRANS_FLIPX = 2147483648" "GID_TRANS_FLIPY = 1073741824" "GID_TRANS_ROT = 536870912"
  by (simp_all add: GID_TRANS_FLIPX_def GID_TRANS_FLIPY_def GID_TRANS_ROT_def)

lemma bit_single: "bit (push_bit k (1::int)) n = (n = k)"
  by (auto simp add: bit_exp_iff)

lemma and_bit_eq: "(x AND push_bit k 1 = push_bit k (1::int)) = bit x k"
proof
  assume "x AND push_bit k 1 = push_bit k 1"
  then have "bit (x AND push_bit k 1) k = bit (push_bit k (1::int)) k" by simp
  then show "bit x k" by (simp only: bit_and_iff bit_single) simp
next
  assume b: "bit x k"
  show "x AND push_bit k 1 = push_bit k 1"
  proof (rule bit_eqI)
    fix n :: nat
    show "bit (x AND push_bit k 1) n = bit (push_bit k (1::int)) n"
      using b by (auto simp only: bit_and_iff bit_single)
  qed
qed

lemma flags_bits: "decode_gid_flags raw = TileFlags (bit raw 31) (bit raw 30) (bit raw 29)"
  unfolding decode_gid_flags_def GID_TRANS_FLIPX_def GID_TRANS_FLIPY_def GID_TRANS_ROT_def
    and_bit_eq
  by (rule refl)

lemma decode_gid_bit:
  "bit (decode_gid raw) n = (bit raw n \<and> n \<noteq> 31 \<and> n \<noteq> 30 \<and> n \<noteq> 29)"
  unfolding decode_gid_def Let_def GID_TRANS_FLIPX_def GID_TRANS_FLIPY_def GID_TRANS_ROT_def
  by (simp only: bit_and_iff bit_not_iff bit_or_iff bit_single) auto

lemma decode_gid_mod:
  assumes "0 \<le> raw" and "raw < 2 ^ 32"
  shows "decode_gid raw = raw mod 2 ^ 29"
proof -
  have "take_bit 32 raw = raw" using assms by (simp add: take_bit_int_eq_self)
  then have hi: "\<And>n. 32 \<le> n \<Longrightarrow> \<not> bit raw n"
    by (metis bit_take_bit_iff not_le)
  have "decode_gid raw = take_bit 29 raw"
  proof (rule bit_eqI)
    fix n :: nat
    have "n < 29 \<or> n = 29 \<or> n = 30 \<or> n = 31 \<or> 32 \<le> n" by arith
    then show "bit (decode_gid raw) n = bit (take_bit 29 raw) n"
      using hi [of n] by (auto simp add: decode_gid_bit bit_take_bit_iff)
  qed
  then show ?thesis by (simp add: take_bit_eq_mod)
qed

text \<open>
  Claim C1, as the code has it. For every raw gid in the 32-bit range, \<^verbatim>\<open>decode_gid\<close>
  returns the tile id alone: the input with bits 31, 30 and 29 cleared, which is the
  input modulo \<open>2 ^ 29\<close>. The flag triple it builds in its local variable has its
  components true exactly when bits 31, 30 and 29 of the input are set, but that triple is
  not part of the returned value.
\<close>

theorem decode_gid_returns_cleared_id:
  assumes "0 \<le> raw" and "raw < 2 ^ 32"
  shows "decode_gid raw = raw mod 2 ^ 29
    \<and> (\<forall>n. bit (decode_gid raw) n = (bit raw n \<and> n \<noteq> 31 \<and> n \<noteq> 30 \<and> n \<noteq> 29))
    \<and> decode_gid_flags raw = TileFlags (bit raw 31) (bit raw 30) (bit raw 29)"
  using decode_gid_mod [OF assms] decode_gid_bit [of raw] flags_bits [of raw] by simp

theorem decode_gid_returns_cleared_id_witness:
  "(0::int) \<le> 2147483653 \<and> (2147483653::int) < 2 ^ 32
   \<and> decode_gid 2147483653 = 2147483653 mod 2 ^ 29
   \<and> decode_gid 2147483653 = 5"
  using decode_gid_returns_cleared_id [of 2147483653] by simp

text \<open>
  Claim C1 as stated fails: the value returned for the raw gid \<open>2 ^ 31 + 5\<close> (horizontal
  flip set) is the integer 5, the same value as for the raw gid 5, although the flag
  triples of the two inputs differ. The returned value is not a pair and does not carry
  the flags.
\<close>

theorem decode_gid_result_without_flags:
  "decode_gid 5 = 5 \<and> decode_gid 2147483653 = 5
   \<and> decode_gid_flags 5 = TileFlags False False False
   \<and> decode_gid_flags 2147483653 = TileFlags True False False"
  by (simp add: decode_gid_def decode_gid_flags_def gid_masks)

section \<open>Geometry: proofs\<close>





section \<open>Evaluation on concrete inputs\<close>

lemma lower_tags:
  "lower ''Tile'' = ''tile''" "lower ''Data'' = ''data''" "lower ''Layer'' = ''layer''"
  "lower ''Map'' = ''map''" "lower ''Properties'' = ''properties''"
  "lower ''Property'' = ''property''"
  by code_simp+

lemma upt_0_2: "[0..<2] = [0, Suc 0]"
  by (simp add: upt_rec)

lemmas model_defs =
  slurp_step_def slurp_initial_def get_processor_def token_classes_def dict_get_def start_def
  Token_start_def PropertyToken_start_def attrib_types_def start_defaults_def Token_init_def
  dict_update_def set_field_def set_attrib_def set_properties_def store_def end_token_def
  DataToken_end_def combine_def py_getattr_def instance_attr_def Token_getattr_def
  obj_getattr_def method_names_def table_names_def add_methods_def lower_tags
  rowify_def py_slice_def slice_bound_def strip_def is_space_def Visible_def Opacity_def
  Color_def int_of_str_def digit_of_def noop_def unpack_def unpack_step_def decode_def
  decompress_def get_data_xform_def globals_xform_def decode_csv_def decode_base64_def
  unroll_layer_data_def split_comma_def decode_gid_def gid_masks upt_0_2

section \<open>Reshaping: proofs\<close>

lemma array_H_ints:
  "list_all fits_H ys \<Longrightarrow> array_H (map (\<lambda>i. Val (VInt i)) ys) = Inr ys"
  by (induction ys) (auto simp add: fits_H_def)

lemma py_slice_row:
  assumes "0 \<le> w"
  shows "py_slice xs (int k * w) (int k * w + w) = take (nat w) (drop (k * nat w) xs)"
proof -
  obtain v where w: "w = int v" using assms by (metis nat_0_le)
  have "int k * w = int (k * v)" by (simp add: w)
  then have lo: "slice_bound (length xs) (int k * w) = min (k * v) (length xs)"
    by (simp add: slice_bound_def del: of_nat_add of_nat_mult)
  have "int k * w + w = int (k * v + v)" by (simp add: w)
  then have hi: "slice_bound (length xs) (int k * w + w) = min (k * v + v) (length xs)"
    by (simp add: slice_bound_def del: of_nat_add of_nat_mult)
  show ?thesis
  proof (cases "k * v \<le> length xs")
    case True
    then show ?thesis
      unfolding py_slice_def Let_def lo hi by (simp add: w min_def)
  next
    case False
    then show ?thesis
      unfolding py_slice_def Let_def lo hi by (simp add: w min_def)
  qed
qed

lemma list_all_take_drop: "list_all P xs \<Longrightarrow> list_all P (take n (drop m xs))"
  by (auto simp add: list_all_iff dest: in_set_takeD in_set_dropD)

lemma rowify_rows_ints:
  assumes "list_all fits_H ids" and "0 \<le> w"
  shows "rowify_rows (map (\<lambda>i. Val (VInt i)) ids :: 'f obj list) w (map int ks) =
           Inr (map (\<lambda>k. take (nat w) (drop (k * nat w) ids)) ks)"
proof (induction ks)
  case Nil
  show ?case by simp
next
  case (Cons k ks)
  have "array_H (py_slice (map (\<lambda>i. Val (VInt i)) ids :: 'f obj list) (int k * w)
          (int k * w + w)) =
      Inr (take (nat w) (drop (k * nat w) ids))"
    by (simp add: py_slice_row [OF assms(2)] take_map drop_map array_H_ints
        list_all_take_drop [OF assms(1)])
  with Cons.IH show ?case by simp
qed

lemma rowify_ints:
  assumes "list_all fits_H ids" and "0 \<le> w" and "0 \<le> h"
  shows "rowify (map (\<lambda>i. Val (VInt i)) ids) (Val (VInt w)) (Val (VInt h)) =
           Inr (Tup (map Arr (map (\<lambda>k. take (nat w) (drop (k * nat w) ids)) [0..<nat h])))"
  using assms(3) by (simp add: rowify_def rowify_rows_ints [OF assms(1,2)])

lemma concat_rows: "concat (map (\<lambda>k. take w (drop (k * w) xs)) [0..<h]) = take (h * w) xs"
proof (induction h)
  case 0
  show ?case by simp
next
  case (Suc h)
  have "take (Suc h * w) xs = take (h * w + w) xs" by (simp add: add.commute)
  also have "\<dots> = take (h * w) xs @ take w (drop (h * w) xs)" by (rule take_add)
  finally show ?case using Suc.IH by simp
qed

lemma row_lengths:
  assumes "length ids = v * n" and "k < n"
  shows "length (take v (drop (k * v) ids)) = v"
proof -
  have "Suc k \<le> n" using assms(2) by simp
  then have "Suc k * v \<le> n * v" by (rule mult_le_mono1)
  then have "v \<le> v * n - k * v" by (simp add: mult.commute)
  then show ?thesis by (simp add: assms(1) min_def)
qed

text \<open>
  Claim C4, as the code has it. The reshape step checks no element count, and the module
  has no error for a mismatch. For a width and a height that are not negative and ids
  that each fit an unsigned short, \<^verbatim>\<open>rowify\<close> returns exactly \<open>h\<close> rows, row \<open>k\<close> being
  the slice \<^verbatim>\<open>gids[k * w : k * w + w]\<close>; flattened, the rows are the first \<open>w * h\<close> ids.
  So ids beyond \<open>w * h\<close> are dropped, and a sequence shorter than \<open>w * h\<close> gives short or
  empty rows.
\<close>

theorem rowify_no_count_check:
  assumes "0 \<le> w" and "0 \<le> h" and "list_all fits_H ids"
  shows "\<exists>rows. rowify (map (\<lambda>i. Val (VInt i)) ids) (Val (VInt w)) (Val (VInt h)) =
             Inr (Tup (map Arr rows))
           \<and> rows = map (\<lambda>k. take (nat w) (drop (k * nat w) ids)) [0..<nat h]
           \<and> length rows = nat h
           \<and> concat rows = take (nat (w * h)) ids"
proof -
  have "nat h * nat w = nat (w * h)"
    using assms(1,2) by (simp add: nat_mult_distrib mult.commute)
  then show ?thesis
    by (simp add: rowify_ints [OF assms(3,1,2)] concat_rows)
qed

theorem rowify_no_count_check_witness:
  "(0::int) \<le> 2 \<and> (0::int) \<le> 1 \<and> list_all fits_H [1, 2, 3]
   \<and> (\<exists>rows. rowify (map (\<lambda>i. Val (VInt i)) [1, 2, 3]) (Val (VInt 2)) (Val (VInt 1)) =
          Inr (Tup (map Arr rows))
        \<and> rows = map (\<lambda>k. take (nat 2) (drop (k * nat 2) [1, 2, 3])) [0..<nat 1]
        \<and> length rows = nat 1
        \<and> concat rows = take (nat (2 * 1)) [1, 2, 3])"
  using rowify_no_count_check [of 2 1 "[1, 2, 3]"] by (simp add: fits_H_def)

text \<open>
  Claim C4 as stated fails, on every platform. A data node with three tile children
  (gids 1, 2, 3) under a layer of width 2 and height 1 ends with the single row
  \<open>[1, 2]\<close>: the third id is dropped without an error. A data node whose base64 text
  decodes to the ids 1, 2, 3 under a layer of width 2 and height 2 ends with the rows
  \<open>[1, 2]\<close> and \<open>[3]\<close>: the second row is short.
\<close>

theorem DataToken_end_count_mismatch:
  "(\<forall>pf. and_then
      (slurp_loop pf
         [(''start'', ''Layer'', [(''width'', VStr ''2''), (''height'', VStr ''1'')], None),
          (''start'', ''Data'', [], None),
          (''start'', ''Tile'', [(''gid'', VStr ''1'')], None), (''end'', ''Tile'', [], None),
          (''start'', ''Tile'', [(''gid'', VStr ''2'')], None), (''end'', ''Tile'', [], None),
          (''start'', ''Tile'', [(''gid'', VStr ''3'')], None), (''end'', ''Tile'', [], None),
          (''end'', ''Data'', [], Some '' '')]
         slurp_initial)
      (\<lambda>state. case snd state of None \<Rightarrow> Inl AttributeError | Some t \<Rightarrow> py_getattr t ''data'')
    = Inr (Tup [Arr [1, 2]]))
  \<and> (\<forall>pf. and_then
      (slurp_loop (pf\<lparr>b64decode := \<lambda>s. Inr [1, 0, 0, 0, 2, 0, 0, 0, 3, 0, 0, 0]\<rparr>)
         [(''start'', ''Layer'', [(''width'', VStr ''2''), (''height'', VStr ''2'')], None),
          (''start'', ''Data'', [(''encoding'', VStr ''base64'')], None),
          (''end'', ''Data'', [], Some ''AQAAAAIAAAADAAAA'')]
         slurp_initial)
      (\<lambda>state. case snd state of None \<Rightarrow> Inl AttributeError | Some t \<Rightarrow> py_getattr t ''data'')
    = Inr (Tup [Arr [1, 2], Arr [3]]))"
  by (simp add: model_defs)

text \<open>
  Claim C7, as the code has it. For every width \<open>w\<close>, every height \<open>h\<close> that is not
  negative and every flat sequence of exactly \<open>w * h\<close> ids that each fit an unsigned
  short (0 to 65535, the item type of the rows), \<^verbatim>\<open>rowify\<close> returns \<open>h\<close> rows of \<open>w\<close>
  columns, and the rows flattened in row-major order are the original sequence.
\<close>

theorem rowify_then_flatten:
  assumes "0 \<le> h" and "int (length ids) = w * h" and "list_all fits_H ids"
  shows "\<exists>rows. rowify (map (\<lambda>i. Val (VInt i)) ids) (Val (VInt w)) (Val (VInt h)) =
             Inr (Tup (map Arr rows))
           \<and> length rows = nat h
           \<and> list_all (\<lambda>r. int (length r) = w) rows
           \<and> concat rows = ids"
proof (cases "h = 0")
  case True
  with assms(2) have "ids = []" by simp
  with True show ?thesis by (simp add: rowify_def)
next
  case False
  with assms(1) have hpos: "0 < h" by simp
  have wnn: "0 \<le> w"
  proof (rule ccontr)
    assume "\<not> 0 \<le> w"
    then have "w * h < 0" using hpos by (simp add: mult_less_0_iff)
    with assms(2) show False by simp
  qed
  let ?rows = "map (\<lambda>k. take (nat w) (drop (k * nat w) ids)) [0..<nat h]"
  have len: "length ids = nat w * nat h"
  proof -
    have "int (length ids) = int (nat w * nat h)" using assms(1,2) wnn by simp
    then show ?thesis by (simp only: of_nat_eq_iff)
  qed
  have "concat ?rows = take (nat h * nat w) ids" by (rule concat_rows)
  then have flat: "concat ?rows = ids" by (simp add: len mult.commute)
  have "list_all (\<lambda>r. length r = nat w) ?rows"
    by (auto simp add: list_all_iff row_lengths [OF len] simp del: length_take length_drop)
  then have lens: "list_all (\<lambda>r. int (length r) = w) ?rows"
    using wnn by (simp add: list_all_iff)
  have "rowify (map (\<lambda>i. Val (VInt i)) ids) (Val (VInt w)) (Val (VInt h)) =
      Inr (Tup (map Arr ?rows))"
    by (rule rowify_ints [OF assms(3) wnn assms(1)])
  with flat lens show ?thesis by (intro exI [of _ ?rows]) simp
qed

theorem rowify_then_flatten_witness:
  "(0::int) \<le> 1 \<and> int (length [5, 0 :: int]) = 2 * 1 \<and> list_all fits_H [5, 0]
   \<and> (\<exists>rows. rowify (map (\<lambda>i. Val (VInt i)) [5, 0]) (Val (VInt 2)) (Val (VInt 1)) =
          Inr (Tup (map Arr rows))
        \<and> length rows = nat 1 \<and> list_all (\<lambda>r. int (length r) = 2) rows
        \<and> concat rows = [5, 0])"
  using rowify_then_flatten [of 1 "[5, 0]" 2] by (simp add: fits_H_def)

text \<open>
  Claim C7 as stated fails: 70000 is a decoded tile id (\<^verbatim>\<open>decode_gid\<close> returns it
  unchanged), and reshaping the one-element sequence that holds it into one row of one
  column raises \<^verbatim>\<open>OverflowError\<close>, because a row is an array of unsigned shorts.
\<close>

theorem rowify_overflow:
  "decode_gid 70000 = 70000
   \<and> rowify [Val (VInt (decode_gid 70000))] (Val (VInt 1)) (Val (VInt 1)) = Inl OverflowError"
  by (simp add: decode_gid_def gid_masks rowify_def py_slice_def slice_bound_def)

section \<open>The data node: evaluation\<close>

text \<open>
  Claim C3, evaluated on the code. A data node with \<^verbatim>\<open>encoding="csv"\<close> and the text
  \<^verbatim>\<open>1,2\<close> under a layer of width 2 and height 1: \<^verbatim>\<open>unpack\<close> returns the map object of
  \<^verbatim>\<open>decode_csv\<close>, the decompression step being skipped, but \<^verbatim>\<open>DataToken.end\<close> passes it
  to \<^verbatim>\<open>unroll_layer_data\<close> like any other payload, whose \<^verbatim>\<open>len(data)\<close> raises
  \<^verbatim>\<open>TypeError\<close>. No grid is produced, on any platform.
\<close>

theorem csv_payload_raises:
  "(\<forall>pf. slurp_loop pf
         [(''start'', ''Layer'', [(''width'', VStr ''2''), (''height'', VStr ''1'')], None),
          (''start'', ''Data'', [(''encoding'', VStr ''csv'')], None),
          (''end'', ''Data'', [], Some ''1,2'')]
         slurp_initial = Inl TypeError)
   \<and> (\<forall>pf. unpack pf (PStr ''1,2'') (Val (VStr ''csv'')) (Val VNone) = Inr (PMap [''1'', ''2'']))
   \<and> unroll_layer_data (PMap [''1'', ''2'']) = Inl TypeError"
  by (simp add: model_defs)

text \<open>
  Claim C6, evaluated on the code. A data node without tile children under a layer of
  width 2 and height 1: when the end event carries no text at all (\<^verbatim>\<open>None\<close>, as for an
  empty element), \<^verbatim>\<open>content.strip()\<close> raises \<^verbatim>\<open>AttributeError\<close> and the statement
  \<^verbatim>\<open>raise Exception("no layer data?")\<close> is not reached; when the text is one blank, that
  statement is reached.
\<close>

theorem DataToken_end_without_text:
  "(\<forall>pf. slurp_loop pf
         [(''start'', ''Layer'', [(''width'', VStr ''2''), (''height'', VStr ''1'')], None),
          (''start'', ''Data'', [], None),
          (''end'', ''Data'', [], None)]
         slurp_initial = Inl AttributeError)
   \<and> (\<forall>pf. slurp_loop pf
         [(''start'', ''Layer'', [(''width'', VStr ''2''), (''height'', VStr ''1'')], None),
          (''start'', ''Data'', [], None),
          (''end'', ''Data'', [], Some '' '')]
         slurp_initial = Inl (Exception ''no layer data?''))"
  by (simp add: model_defs)

section \<open>Attribute population: proofs\<close>










section \<open>The registry and the driver: proofs\<close>

lemma slurp_loop_append:
  "slurp_loop pf (xs @ ys) state =
     (case slurp_loop pf xs state of Inl e \<Rightarrow> Inl e | Inr state' \<Rightarrow> slurp_loop pf ys state')"
  by (induction xs arbitrary: state) (auto split: sum.splits)

lemma get_processor_unknown:
  assumes "feature @ ''Token'' \<notin> set (map fst token_classes)"
  shows "get_processor feature = Inl (UnsupportedFeature [feature])"
proof -
  have "map_of token_classes (feature @ ''Token'') = None"
    using assms by (simp add: map_of_eq_None_iff)
  then show ?thesis by (simp add: get_processor_def dict_get_def)
qed

text \<open>
  Claim C9. For a tag name whose class name is not in the registry, \<^verbatim>\<open>get_processor\<close>
  fails with \<^verbatim>\<open>UnsupportedFeature\<close> carrying that tag name. A start event with such a
  tag makes the loop body fail with that exception in every state, so no token is made or
  pushed for it; \<^verbatim>\<open>slurp\<close> on a source that begins with it, or that reaches it after a
  prefix that was processed, ends with that exception and produces no result.
\<close>

theorem unknown_tag_unsupported:
  assumes "feature @ ''Token'' \<notin> set (map fst token_classes)"
  shows "get_processor feature = Inl (UnsupportedFeature [feature])
    \<and> (\<forall>pf init text state.
          slurp_step pf (''start'', feature, init, text) state =
            Inl (UnsupportedFeature [feature]))
    \<and> (\<forall>pf init text rest err.
          slurp_source pf ((''start'', feature, init, text) # rest, err) =
            Inl (UnsupportedFeature [feature]))
    \<and> (\<forall>pf before state state' init text rest.
          slurp_loop pf before state = Inr state' \<longrightarrow>
          slurp_loop pf (before @ (''start'', feature, init, text) # rest) state =
            Inl (UnsupportedFeature [feature]))"
proof -
  note gp = get_processor_unknown [OF assms]
  have step: "slurp_step pf (''start'', feature, init, content) state =
      Inl (UnsupportedFeature [feature])"
    for pf :: "'f platform" and init content state
    by (cases state) (simp add: slurp_step_def gp)
  have src: "slurp_source pf ((''start'', feature, init, content) # rest, err) =
      Inl (UnsupportedFeature [feature])"
    for pf :: "'f platform" and init content rest err
    by (simp add: slurp_source_def step)
  have mid: "slurp_loop pf (before @ (''start'', feature, init, content) # rest) state =
      Inl (UnsupportedFeature [feature])"
    if "slurp_loop pf before state = Inr state'"
    for pf :: "'f platform" and before state state' init content rest
    using that by (simp add: slurp_loop_append step)
  from gp step src mid show ?thesis by blast
qed

theorem unknown_tag_unsupported_witness:
  "''Bogus'' @ ''Token'' \<notin> set (map fst token_classes)
   \<and> get_processor ''Bogus'' = Inl (UnsupportedFeature [''Bogus''])
   \<and> (\<forall>pf. slurp_source pf ([(''start'', ''Bogus'', [], None)], None) =
         Inl (UnsupportedFeature [''Bogus'']))"
proof -
  have h: "''Bogus'' @ ''Token'' \<notin> set (map fst token_classes)"
    by (simp add: token_classes_def)
  from unknown_tag_unsupported [OF h] h show ?thesis by blast
qed





section \<open>Attribute access: proofs\<close>

lemma instance_attr_set_properties:
  "instance_attr self name = None \<Longrightarrow> instance_attr (set_properties self props) name = None"
  by (auto simp add: instance_attr_def set_properties_def split: if_splits option.splits)

lemma getattr_absent:
  assumes "instance_attr self name = None" and "name \<notin> set (map fst (attrib self))"
  shows "py_getattr self name = Inl AttributeError"
proof -
  have "map_of (attrib self) name = None" using assms(2) by (simp add: map_of_eq_None_iff)
  then show ?thesis by (simp add: py_getattr_def assms(1) Token_getattr_def dict_get_def)
qed

text \<open>
  Claim C10. For every token and every name that ordinary lookup does not find (no
  instance attribute and no attribute of the class) and that is not a key of
  \<^verbatim>\<open>self.attrib\<close>, reading the attribute raises \<^verbatim>\<open>AttributeError\<close>. This stays so whatever
  object is stored in \<^verbatim>\<open>self.properties\<close>, and in particular after \<^verbatim>\<open>add_properties\<close> has
  stored a dictionary, also one that has the name as a key: the properties are not
  consulted.
\<close>

theorem getattr_never_reads_properties:
  assumes "instance_attr (self :: 'f token) name = None"
    and "name \<notin> set (map fst (attrib self))"
  shows "py_getattr self name = Inl AttributeError
    \<and> (\<forall>props. py_getattr (set_properties self props) name = Inl AttributeError)
    \<and> (\<forall>pf item self'. run_add pf Set_Properties self item = Inr self' \<longrightarrow>
          py_getattr self' name = Inl AttributeError)"
proof -
  have 1: "py_getattr self name = Inl AttributeError" using assms by (rule getattr_absent)
  have 2: "py_getattr (set_properties self props) name = Inl AttributeError" for props
  proof (rule getattr_absent)
    show "instance_attr (set_properties self props) name = None"
      using assms(1) by (rule instance_attr_set_properties)
    show "name \<notin> set (map fst (attrib (set_properties self props)))"
      using assms(2) by (simp add: set_properties_def)
  qed
  have 3: "py_getattr self' name = Inl AttributeError"
    if "run_add pf Set_Properties self item = Inr self'"
    for pf :: "'f platform" and item self'
  proof -
    from that obtain d where "self' = set_properties self d"
      by (cases "py_getattr item ''dictionary''") auto
    with 2 show ?thesis by simp
  qed
  from 1 2 3 show ?thesis by blast
qed

theorem getattr_never_reads_properties_witness:
  "instance_attr
     (Instance LayerToken [(''name'', Val (VStr ''ground''))] (Dict []) [(''data'', Val VNone)])
     ''foo'' = None
   \<and> ''foo'' \<notin> set (map fst (attrib
        (Instance LayerToken [(''name'', Val (VStr ''ground''))] (Dict [])
           [(''data'', Val VNone)])))
   \<and> py_getattr
        (set_properties
           (Instance LayerToken [(''name'', Val (VStr ''ground''))] (Dict [])
              [(''data'', Val VNone)])
           (Dict [(VStr ''foo'', Val (VInt 1))])) ''foo'' = Inl AttributeError
   \<and> py_getattr
        (set_properties
           (Instance LayerToken [(''name'', Val (VStr ''ground''))] (Dict [])
              [(''data'', Val VNone)])
           (Dict [(VStr ''foo'', Val (VInt 1))])) ''properties'' =
       Inr (Dict [(VStr ''foo'', Val (VInt 1))])"
  using getattr_never_reads_properties
    [of "Instance LayerToken [(''name'', Val (VStr ''ground''))] (Dict [])
           [(''data'', Val VNone)]" "''foo''"]
  by (simp add: instance_attr_def method_names_def table_names_def add_methods_def
      py_getattr_def set_properties_def Token_getattr_def dict_get_def)

end
